theory Spec2Isabelle
  imports Main
begin

section \<open>Configuration values and errors\<close>

text \<open>
  The configuration dictionaries are loaded from a file, so the value stored under a key is
  either Python's \<open>None\<close> or a string. A key that is absent from a dictionary is the
  \<open>None\<close> of the corresponding record field below; a key that is present carries a
  \<open>pyval\<close>. Python's truth test \<open>not v\<close> holds for \<open>None\<close> and for the empty string.
\<close>

datatype pyval = PyNone | PyStr string

fun truthy :: "pyval \<Rightarrow> bool" where
  "truthy PyNone = False"
| "truthy (PyStr s) = (s \<noteq> [])"

text \<open>
  The exceptions: \<open>ValueError\<close> by an explicit \<open>raise\<close> of the modules, \<open>KeyError\<close> by
  subscripting a dictionary with a key it does not have, and \<open>ValidationError\<close> by the
  constructor of a langchain class that is called without a field the class requires.
\<close>

datatype error = ValueError | KeyError | ValidationError

text \<open>
  The value stored under \<open>CONFIG_TYPE\<close>: one of the four keys of the \<open>__factories\<close> table
  of \<open>get_model\<close>, or any other string.
\<close>

datatype backend_type =
    CONFIG_HUGGINGFACE_PIPELINE
  | CONFIG_LLAMACPP
  | CONFIG_OLLAMA
  | CONFIG_OPENAI
  | OtherType string

text \<open>One element of \<open>config[CONFIG_LLMS]\<close>: a backend descriptor. Each field is a key.\<close>

record llm_config =
  CONFIG_NAME :: "string option"
  CONFIG_TYPE :: "backend_type option"
  CONFIG_MODEL :: "pyval option"
  CONFIG_LLM_OPENAI_API_KEY :: "pyval option"

text \<open>The dictionary given to \<open>ModelManager(config)\<close>.\<close>

record config =
  CONFIG_LLMS :: "llm_config list option"

text \<open>The dictionary given to \<open>ModelManager.get_model(config)\<close>.\<close>

record request =
  CONFIG_LLM :: "string option"
  CONFIG_EMBEDDINGS :: "string option"

section \<open>Model factories (lib/model\_manager.py)\<close>

text \<open>A factory object holds the fields its \<open>__init__\<close> stores: the model, and the API key.\<close>

datatype factory =
    HuggingFaceFactory pyval
  | LlamaCppFactory pyval
  | OllamaFactory pyval
  | OpenAIFactory pyval pyval

definition HuggingFaceFactory_init :: "llm_config \<Rightarrow> error + factory" where
  "HuggingFaceFactory_init cfg =
     (case CONFIG_MODEL cfg of
        None \<Rightarrow> Inl KeyError
      | Some m \<Rightarrow> if \<not> truthy m then Inl ValueError else Inr (HuggingFaceFactory m))"

definition LlamaCppFactory_init :: "llm_config \<Rightarrow> error + factory" where
  "LlamaCppFactory_init cfg =
     (case CONFIG_MODEL cfg of
        None \<Rightarrow> Inl KeyError
      | Some m \<Rightarrow> if \<not> truthy m then Inl ValueError else Inr (LlamaCppFactory m))"

definition OllamaFactory_init :: "llm_config \<Rightarrow> error + factory" where
  "OllamaFactory_init cfg =
     (case CONFIG_MODEL cfg of
        None \<Rightarrow> Inl KeyError
      | Some m \<Rightarrow> if \<not> truthy m then Inl ValueError else Inr (OllamaFactory m))"

text \<open>
  \<open>OpenAIFactory.__init__\<close> of lib/model\_manager.py reads the model and the API key and
  tests the API key only.
\<close>

definition OpenAIFactory_init :: "llm_config \<Rightarrow> error + factory" where
  "OpenAIFactory_init cfg =
     (case CONFIG_MODEL cfg of
        None \<Rightarrow> Inl KeyError
      | Some m \<Rightarrow>
          (case CONFIG_LLM_OPENAI_API_KEY cfg of
             None \<Rightarrow> Inl KeyError
           | Some k \<Rightarrow> if \<not> truthy k then Inl ValueError else Inr (OpenAIFactory m k)))"

text \<open>
  The two factories of the package layout, support\_ai/lib/model\_manager/llamacpp\_factory.py
  and openai\_factory.py. The OpenAI one tests the model before it reads the API key.
\<close>

definition support_ai_LlamaCppFactory_init :: "llm_config \<Rightarrow> error + factory" where
  "support_ai_LlamaCppFactory_init cfg =
     (case CONFIG_MODEL cfg of
        None \<Rightarrow> Inl KeyError
      | Some m \<Rightarrow> if \<not> truthy m then Inl ValueError else Inr (LlamaCppFactory m))"

definition support_ai_OpenAIFactory_init :: "llm_config \<Rightarrow> error + factory" where
  "support_ai_OpenAIFactory_init cfg =
     (case CONFIG_MODEL cfg of
        None \<Rightarrow> Inl KeyError
      | Some m \<Rightarrow>
          if \<not> truthy m then Inl ValueError
          else (case CONFIG_LLM_OPENAI_API_KEY cfg of
                  None \<Rightarrow> Inl KeyError
                | Some k \<Rightarrow> if \<not> truthy k then Inl ValueError else Inr (OpenAIFactory m k)))"

text \<open>
  The module-level \<open>get_model(llm_config)\<close>: the type must be present and a key of the
  factory table; the chosen factory class is then instantiated on the descriptor.
\<close>

definition get_model :: "llm_config \<Rightarrow> error + factory" where
  "get_model cfg =
     (case CONFIG_TYPE cfg of
        None \<Rightarrow> Inl ValueError
      | Some CONFIG_HUGGINGFACE_PIPELINE \<Rightarrow> HuggingFaceFactory_init cfg
      | Some CONFIG_LLAMACPP \<Rightarrow> LlamaCppFactory_init cfg
      | Some CONFIG_OLLAMA \<Rightarrow> OllamaFactory_init cfg
      | Some CONFIG_OPENAI \<Rightarrow> OpenAIFactory_init cfg
      | Some (OtherType t) \<Rightarrow> Inl ValueError)"

text \<open>
  \<open>create_llm\<close> and \<open>create_embeddings\<close> call the provider's constructor, which lies outside
  this repository. A constructed handle is an object: it records which operation of which
  factory made it, and a serial number that stands for the object's identity (every call of
  a provider constructor yields a new object). The provider's constructor is taken to
  return; its own failures are not part of this model.
\<close>

datatype product = LLM_INST_OF | EMBEDDINGS_INST_OF

datatype handle = Handle product factory nat

definition create_llm :: "factory \<Rightarrow> nat \<Rightarrow> handle" where
  "create_llm f serial = Handle LLM_INST_OF f serial"

definition create_embeddings :: "factory \<Rightarrow> nat \<Rightarrow> handle" where
  "create_embeddings f serial = Handle EMBEDDINGS_INST_OF f serial"

section \<open>The model manager (lib/model\_manager.py)\<close>

text \<open>A value of \<open>self.__models\<close>: the dictionary with the three keys of the module.\<close>

record entry =
  LLM_CONFIG :: llm_config
  LLM_INST :: "handle option"
  EMBEDDINGS_INST :: "handle option"

text \<open>
  The manager object. \<open>models\<close> is \<open>self.__models\<close>. \<open>constructed\<close> is instrumentation, not a
  field of the source: the log of the provider-constructor calls made at the two call sites
  of \<open>ModelManager.get_model\<close>, each with the backend name it was made for. Its length is the
  serial number of the next handle.
\<close>

record ModelManager =
  models :: "string \<rightharpoonup> entry"
  constructed :: "(string \<times> product) list"

record Model =
  llm :: "handle option"
  embeddings :: "handle option"

text \<open>The loop of \<open>__new__\<close> over \<open>config[CONFIG_LLMS]\<close>, on the dictionary built so far.\<close>

fun register :: "llm_config list \<Rightarrow> (string \<rightharpoonup> entry) \<Rightarrow> error + (string \<rightharpoonup> entry)" where
  "register [] ms = Inr ms"
| "register (l # ls) ms =
     (case CONFIG_NAME l of
        None \<Rightarrow> Inl ValueError
      | Some n \<Rightarrow>
          if ms n \<noteq> None then Inl ValueError
          else register ls (ms(n \<mapsto> \<lparr>LLM_CONFIG = l, LLM_INST = None, EMBEDDINGS_INST = None\<rparr>)))"

text \<open>
  \<open>ModelManager.__new__(cls, config)\<close>. The second argument and the second component of the
  result are the class attribute \<open>__instance\<close> before and after the call. The one manager
  object ever stored there is represented by its current value. When an exception is
  raised the attribute keeps its value, since it is assigned after the loop only.
\<close>

definition ModelManager_new ::
  "config \<Rightarrow> ModelManager option \<Rightarrow> (error + ModelManager) \<times> ModelManager option" where
  "ModelManager_new cfg instance =
     (case instance of
        Some inst \<Rightarrow> (Inr inst, Some inst)
      | None \<Rightarrow>
          (case CONFIG_LLMS cfg of
             None \<Rightarrow> (Inl ValueError, None)
           | Some llms \<Rightarrow>
               (case register llms Map.empty of
                  Inl e \<Rightarrow> (Inl e, None)
                | Inr ms \<Rightarrow>
                    (let self = \<lparr>models = ms, constructed = []\<rparr>
                     in (Inr self, Some self)))))"

text \<open>
  The first block of \<open>ModelManager.get_model\<close> (the language model), for a requested name:
  the name must be registered; a handle not yet built is built by the factory of the
  entry's descriptor and stored in the entry.
\<close>

definition get_llm_inst :: "string \<Rightarrow> ModelManager \<Rightarrow> (error + handle) \<times> ModelManager" where
  "get_llm_inst llm_name self =
     (case models self llm_name of
        None \<Rightarrow> (Inl ValueError, self)
      | Some e \<Rightarrow>
          (case LLM_INST e of
             Some h \<Rightarrow> (Inr h, self)
           | None \<Rightarrow>
               (case get_model (LLM_CONFIG e) of
                  Inl err \<Rightarrow> (Inl err, self)
                | Inr f \<Rightarrow>
                    (let h = create_llm f (length (constructed self))
                     in (Inr h,
                         self\<lparr>models := (models self)(llm_name \<mapsto> e\<lparr>LLM_INST := Some h\<rparr>),
                              constructed := constructed self @ [(llm_name, LLM_INST_OF)]\<rparr>)))))"

text \<open>The second block (the embeddings), for a requested name.\<close>

definition get_embeddings_inst ::
  "string \<Rightarrow> ModelManager \<Rightarrow> (error + handle) \<times> ModelManager" where
  "get_embeddings_inst embeddings_name self =
     (case models self embeddings_name of
        None \<Rightarrow> (Inl ValueError, self)
      | Some e \<Rightarrow>
          (case EMBEDDINGS_INST e of
             Some h \<Rightarrow> (Inr h, self)
           | None \<Rightarrow>
               (case get_model (LLM_CONFIG e) of
                  Inl err \<Rightarrow> (Inl err, self)
                | Inr f \<Rightarrow>
                    (let h = create_embeddings f (length (constructed self))
                     in (Inr h,
                         self\<lparr>models := (models self)(embeddings_name \<mapsto> e\<lparr>EMBEDDINGS_INST := Some h\<rparr>),
                              constructed :=
                                constructed self @ [(embeddings_name, EMBEDDINGS_INST_OF)]\<rparr>)))))"

text \<open>
  \<open>ModelManager.get_model(self, config)\<close>: the language-model block, then the embeddings
  block on the manager as the first block left it. An exception ends the call; what was
  stored before it stays stored.
\<close>

definition ModelManager_get_model ::
  "request \<Rightarrow> ModelManager \<Rightarrow> (error + Model) \<times> ModelManager" where
  "ModelManager_get_model cfg self =
     (case (case CONFIG_LLM cfg of
              None \<Rightarrow> (Inr None, self)
            | Some llm_name \<Rightarrow>
                (case get_llm_inst llm_name self of
                   (Inl err, self1) \<Rightarrow> (Inl err, self1)
                 | (Inr h, self1) \<Rightarrow> (Inr (Some h), self1))) of
        (Inl err, self1) \<Rightarrow> (Inl err, self1)
      | (Inr l, self1) \<Rightarrow>
          (case CONFIG_EMBEDDINGS cfg of
             None \<Rightarrow> (Inr \<lparr>llm = l, embeddings = None\<rparr>, self1)
           | Some embeddings_name \<Rightarrow>
               (case get_embeddings_inst embeddings_name self1 of
                  (Inl err, self2) \<Rightarrow> (Inl err, self2)
                | (Inr h, self2) \<Rightarrow> (Inr \<lparr>llm = l, embeddings = Some h\<rparr>, self2))))"

text \<open>A sequential execution: the requests one after the other on the same manager.\<close>

fun resolve_all ::
  "request list \<Rightarrow> ModelManager \<Rightarrow> (error + Model) list \<times> ModelManager" where
  "resolve_all [] self = ([], self)"
| "resolve_all (c # cs) self =
     (case ModelManager_get_model c self of
        (r, self1) \<Rightarrow> (case resolve_all cs self1 of (rs, self2) \<Rightarrow> (r # rs, self2)))"

section \<open>Session memory (lib/memory.py)\<close>

text \<open>
  A chat message: who speaks, and the text. A turn of a conversation is a \<open>Human\<close> message
  followed by the \<open>AI\<close> message that answers it.
\<close>

datatype role = System | Human | AI

type_synonym message = "role \<times> string"

text \<open>
  Modelled from the spec: the persisted chat history collaborator
  (\<open>MongoDBChatMessageHistory\<close>, a class of the langchain library, not of this repository).
  The spec describes it as addressed by a connection handle plus a session identifier,
  with a load of the prior turns, an append of a new turn, and a deletion. The object is
  the address; the stored messages live in the database.
\<close>

record MongoDBChatMessageHistory =
  connection_string :: string
  session_id :: string

text \<open>
  Modelled from the spec: the session memory object (\<open>ConversationSummaryBufferMemory\<close>, also
  of langchain): a reference to the persisted history and a running summary, empty when
  the object is made. \<open>object_id\<close> stands for the identity of the Python object.
\<close>

record ConversationSummaryBufferMemory =
  chat_memory :: MongoDBChatMessageHistory
  moving_summary_buffer :: string
  object_id :: nat

text \<open>The dictionary given to \<open>Memory(config, llm)\<close>.\<close>

record memory_config =
  CONFIG_DB_CONNECTION :: "string option"

text \<open>
  The \<open>Memory\<close> object with the part of the world its methods touch. \<open>db_connection\<close>,
  \<open>self_llm\<close> (the field \<open>self.llm\<close>, as the function from a conversation to the text the
  model answers) and \<open>session_memories\<close> are the fields of the source; the mutex is left out,
  the model being sequential. \<open>persisted\<close> is the database: the messages stored for a
  connection and a session. \<open>prune\<close> is the summarisation policy of the session memory
  collaborator: the new running summary, from the stored messages and the old summary.
  \<open>history_ctor_calls\<close> and \<open>memory_ctor_calls\<close> are instrumentation: the number of calls of
  the two collaborator constructors so far. The calls into the collaborators and into the
  language model are taken to return; their own failures are not part of this model.
\<close>

record Memory =
  db_connection :: string
  self_llm :: "message list \<Rightarrow> string"
  session_memories :: "string \<rightharpoonup> ConversationSummaryBufferMemory"
  persisted :: "string \<times> string \<rightharpoonup> message list"
  prune :: "message list \<Rightarrow> string \<Rightarrow> string"
  history_ctor_calls :: nat
  memory_ctor_calls :: nat

text \<open>
  \<open>Memory.__init__\<close>, given the language model, and the database and the collaborator's policy
  as they are when the process starts.
\<close>

definition Memory_init ::
  "memory_config \<Rightarrow> (message list \<Rightarrow> string) \<Rightarrow> (string \<times> string \<rightharpoonup> message list) \<Rightarrow>
   (message list \<Rightarrow> string \<Rightarrow> string) \<Rightarrow> error + Memory" where
  "Memory_init cfg model_llm database policy =
     (case CONFIG_DB_CONNECTION cfg of
        None \<Rightarrow> Inl ValueError
      | Some c \<Rightarrow>
          Inr \<lparr>db_connection = c, self_llm = model_llm, session_memories = Map.empty,
               persisted = database, prune = policy,
               history_ctor_calls = 0, memory_ctor_calls = 0\<rparr>)"

text \<open>Modelled from the spec: the load of the stored messages of a history.\<close>

definition messages :: "MongoDBChatMessageHistory \<Rightarrow> Memory \<Rightarrow> message list" where
  "messages h self =
     (case persisted self (connection_string h, session_id h) of None \<Rightarrow> [] | Some ms \<Rightarrow> ms)"

text \<open>
  Modelled from the spec: \<open>load_memory_variables\<close>, the load of the prior, possibly
  summarised, turns: the running summary, when there is one, before the stored messages.
\<close>

definition load_memory_variables ::
  "ConversationSummaryBufferMemory \<Rightarrow> Memory \<Rightarrow> message list" where
  "load_memory_variables m self =
     (if moving_summary_buffer m = [] then [] else [(System, moving_summary_buffer m)])
     @ messages (chat_memory m) self"

text \<open>
  Modelled from the spec: \<open>save_context\<close>, the append of a new turn to the persisted history,
  after which the collaborator revises its running summary by its own policy. The memory
  object is mutated in place: the dictionary, which holds that object, sees the new summary.
\<close>

definition save_context ::
  "ConversationSummaryBufferMemory \<Rightarrow> string \<Rightarrow> string \<Rightarrow> Memory \<Rightarrow> Memory" where
  "save_context m input output self =
     (let h = chat_memory m;
          ms = messages h self @ [(Human, input), (AI, output)];
          m' = m\<lparr>moving_summary_buffer := prune self ms (moving_summary_buffer m)\<rparr>
      in self\<lparr>persisted := (persisted self)((connection_string h, session_id h) \<mapsto> ms),
              session_memories :=
                (\<lambda>s. if session_memories self s = Some m then Some m' else session_memories self s)\<rparr>)"

text \<open>
  Modelled from the spec: the \<open>clear()\<close> of a session memory, the deletion of the stored
  messages of its history.
\<close>

definition history_clear :: "MongoDBChatMessageHistory \<Rightarrow> Memory \<Rightarrow> Memory" where
  "history_clear h self =
     self\<lparr>persisted := (persisted self)((connection_string h, session_id h) := None)\<rparr>"

text \<open>
  The constructor of the session memory class, \<open>ConversationSummaryBufferMemory(chat_memory=...,
  llm=...)\<close>. The field \<open>llm\<close> is required by the class: a call that passes none raises
  \<open>ValidationError\<close> and makes no object. The last argument is the identity the new object
  gets.
\<close>

definition ConversationSummaryBufferMemory_init ::
  "MongoDBChatMessageHistory \<Rightarrow> (message list \<Rightarrow> string) option \<Rightarrow> nat \<Rightarrow>
   error + ConversationSummaryBufferMemory" where
  "ConversationSummaryBufferMemory_init chat model_llm ident =
     (case model_llm of
        None \<Rightarrow> Inl ValidationError
      | Some l \<Rightarrow> Inr \<lparr>chat_memory = chat, moving_summary_buffer = [], object_id = ident\<rparr>)"

text \<open>
  \<open>Memory.__get_session_memory(self, session)\<close>. The constructor call passes \<open>llm=self.llm\<close>, so
  it returns the new object.
\<close>

definition Memory_get_session_memory ::
  "string \<Rightarrow> Memory \<Rightarrow> ConversationSummaryBufferMemory \<times> Memory" where
  "Memory_get_session_memory session self =
     (case session_memories self session of
        Some m \<Rightarrow> (m, self)
      | None \<Rightarrow>
          (let memory = \<lparr>connection_string = db_connection self, session_id = session\<rparr>;
               m = \<lparr>chat_memory = memory, moving_summary_buffer = [],
                    object_id = memory_ctor_calls self\<rparr>
           in (m, self\<lparr>session_memories := (session_memories self)(session \<mapsto> m),
                       history_ctor_calls := Suc (history_ctor_calls self),
                       memory_ctor_calls := Suc (memory_ctor_calls self)\<rparr>)))"

text \<open>
  The prompt of \<open>integrate\<close>: the system message, the placeholder filled with the loaded
  history, and the human message whose template is filled with the context and the query.
\<close>

definition integrate_prompt :: "message list \<Rightarrow> string \<Rightarrow> string \<Rightarrow> message list" where
  "integrate_prompt history context query =
     [(System, ''You are a helpful chatbot'')] @ history @
     [(Human, ''Based on the context: '' @ context @ '', '' @ query)]"

text \<open>\<open>Memory.integrate(self, session, query, context)\<close>.\<close>

definition Memory_integrate :: "string \<Rightarrow> string \<Rightarrow> string \<Rightarrow> Memory \<Rightarrow> string \<times> Memory" where
  "Memory_integrate session query context self =
     (case Memory_get_session_memory session self of
        (memory, self1) \<Rightarrow>
          (let integrated_context =
                 self_llm self1 (integrate_prompt (load_memory_variables memory self1) context query)
           in (integrated_context, save_context memory query integrated_context self1)))"

text \<open>
  \<open>Memory.clear(self, session)\<close>. The history is constructed; then the session memory is
  constructed from it, by a call that passes \<open>chat_memory\<close> only, and \<open>clear()\<close> is called on
  the result; then the session is deleted from the dictionary if it is there. An exception
  ends the call where it is raised.
\<close>

definition Memory_clear :: "string \<Rightarrow> Memory \<Rightarrow> (error + unit) \<times> Memory" where
  "Memory_clear session self =
     (let memory = \<lparr>connection_string = db_connection self, session_id = session\<rparr>;
          self1 = self\<lparr>history_ctor_calls := Suc (history_ctor_calls self),
                       memory_ctor_calls := Suc (memory_ctor_calls self)\<rparr>
      in case ConversationSummaryBufferMemory_init memory None (memory_ctor_calls self) of
           Inl err \<Rightarrow> (Inl err, self1)
         | Inr m \<Rightarrow>
             (let self2 = history_clear (chat_memory m) self1
              in (Inr (),
                  if session_memories self2 session \<noteq> None
                  then self2\<lparr>session_memories := (session_memories self2)(session := None)\<rparr>
                  else self2)))"

text \<open>
  The invariant of the dictionary: the memory stored for a session is bound to the history
  of that session under the manager's connection.
\<close>

definition sessions_bound :: "Memory \<Rightarrow> bool" where
  "sessions_bound self =
     (\<forall>s m. session_memories self s = Some m \<longrightarrow>
        chat_memory m = \<lparr>connection_string = db_connection self, session_id = s\<rparr>)"

text \<open>The stored messages of a session, under the manager's connection.\<close>

definition history_of :: "Memory \<Rightarrow> string \<Rightarrow> message list" where
  "history_of self session =
     messages \<lparr>connection_string = db_connection self, session_id = session\<rparr> self"

section \<open>The time-bounded cache\<close>

text \<open>
  Modelled from the spec: the cache entry of the \<open>timed_lru_cache\<close> decorator
  (support\_ai/lib/utils/lru.py, which is not among the sources). The spec's \<open>CacheEntry\<close> has
  a key, a value, the time of its creation and its time to live. Times are integers, in
  the unit of the clock.
\<close>

record ('k, 'v) CacheEntry =
  key :: 'k
  cached_value :: 'v
  created_at :: int
  ttl :: int

text \<open>
  Modelled from the spec: an entry is visible to callers only while
  \<open>now - created_at < ttl\<close>.
\<close>

definition live :: "int \<Rightarrow> ('k, 'v) CacheEntry \<Rightarrow> bool" where
  "live now e = (now - created_at e < ttl e)"

text \<open>
  Modelled from the spec: \<open>get_or_compute(key, compute, ttl, max_entries)\<close>, with the reading
  of the clock as the argument \<open>now\<close>. The cache is the list of its entries, the most
  recently used first. If a live entry exists for the key, its value is returned and
  \<open>compute\<close> is not invoked; the entry becomes the most recently used. Otherwise \<open>compute\<close> is
  invoked, the result is stored with the current time in place of any entry of the key, the
  least recently used entry is evicted if the cache exceeds \<open>max_entries\<close>, and the fresh
  value is returned. The result is the value, the number of invocations of \<open>compute\<close>, and
  the cache after the call.
\<close>

definition get_or_compute ::
  "'k \<Rightarrow> (unit \<Rightarrow> 'v) \<Rightarrow> int \<Rightarrow> nat \<Rightarrow> int \<Rightarrow> ('k, 'v) CacheEntry list \<Rightarrow>
   'v \<times> nat \<times> ('k, 'v) CacheEntry list" where
  "get_or_compute k compute time_to_live max_entries now cache =
     (case find (\<lambda>e. key e = k \<and> live now e) cache of
        Some e \<Rightarrow> (cached_value e, 0, e # remove1 e cache)
      | None \<Rightarrow>
          (let v = compute ();
               stored = \<lparr>key = k, cached_value = v, created_at = now, ttl = time_to_live\<rparr>
                          # filter (\<lambda>e. key e \<noteq> k) cache
           in (v, 1, if max_entries < length stored then butlast stored else stored)))"

text \<open>
  \<open>KnowledgeBaseSource.__get_summary\<close> (support\_ai/lib/datasources/kb.py): the summary prompt
  filled with the solution and sent to the language model, under the cache; the key is the
  solution. The decorator is applied with its default parameters, which the sources do not
  show: they are arguments here.
\<close>

definition SUMMARY_PROMPT :: "string \<Rightarrow> string" where
  "SUMMARY_PROMPT solution =
     ''Write a concise summary of the following:'' @ [CHR 0x0A] @
     ''    '' @ [CHR 0x22] @ solution @ [CHR 0x22] @ [CHR 0x0A] @
     ''    CONCISE SUMMARY:''"

definition get_summary ::
  "(string \<Rightarrow> string) \<Rightarrow> int \<Rightarrow> nat \<Rightarrow> string \<Rightarrow> int \<Rightarrow> (string, string) CacheEntry list \<Rightarrow>
   string \<times> nat \<times> (string, string) CacheEntry list" where
  "get_summary model_llm seconds maxsize solution now cache =
     get_or_compute solution (\<lambda>_. model_llm (SUMMARY_PROMPT solution)) seconds maxsize now cache"


section \<open>Instrumentation of the registry\<close>

text \<open>
  The handle field of an entry that a kind of product is stored in, and the invariant that
  ties the log of constructor calls to the handle fields: for every name and product, the
  number of logged calls is one when the field holds a handle and zero otherwise.
\<close>

definition inst_of :: "product \<Rightarrow> entry \<Rightarrow> handle option" where
  "inst_of p e = (case p of LLM_INST_OF \<Rightarrow> LLM_INST e | EMBEDDINGS_INST_OF \<Rightarrow> EMBEDDINGS_INST e)"

definition cached_once :: "ModelManager \<Rightarrow> bool" where
  "cached_once self =
     (\<forall>n p. count_list (constructed self) (n, p) =
        (case models self n of
           None \<Rightarrow> 0
         | Some e \<Rightarrow> (case inst_of p e of None \<Rightarrow> 0 | Some h \<Rightarrow> 1)))"


text \<open>
  A registered name whose descriptor \<open>get_model\<close> accepts: the name is a key of the dictionary
  and the factory of its descriptor can be instantiated.
\<close>

definition accepted :: "ModelManager \<Rightarrow> string \<Rightarrow> bool" where
  "accepted self k =
     (case models self k of
        None \<Rightarrow> False
      | Some e \<Rightarrow> (case get_model (LLM_CONFIG e) of Inl err \<Rightarrow> False | Inr f \<Rightarrow> True))"

section \<open>Example configurations\<close>

definition ollama_a :: llm_config where
  "ollama_a = \<lparr>CONFIG_NAME = Some ''a'', CONFIG_TYPE = Some CONFIG_OLLAMA,
               CONFIG_MODEL = Some (PyStr ''llama3''), CONFIG_LLM_OPENAI_API_KEY = None\<rparr>"

definition openai_nokey :: llm_config where
  "openai_nokey = \<lparr>CONFIG_NAME = Some ''gpt'', CONFIG_TYPE = Some CONFIG_OPENAI,
               CONFIG_MODEL = Some (PyStr ''gpt-4''), CONFIG_LLM_OPENAI_API_KEY = Some (PyStr '''')\<rparr>"

definition fresh_entry :: "llm_config \<Rightarrow> entry" where
  "fresh_entry l = \<lparr>LLM_CONFIG = l, LLM_INST = None, EMBEDDINGS_INST = None\<rparr>"

definition manager_a :: ModelManager where
  "manager_a = \<lparr>models = [''a'' \<mapsto> fresh_entry ollama_a], constructed = []\<rparr>"


definition manager_gpt :: ModelManager where
  "manager_gpt = \<lparr>models = [''gpt'' \<mapsto> fresh_entry openai_nokey], constructed = []\<rparr>"

definition request_a_both :: request where
  "request_a_both = \<lparr>CONFIG_LLM = Some ''a'', CONFIG_EMBEDDINGS = Some ''a''\<rparr>"

definition manager_a_resolved :: ModelManager where
  "manager_a_resolved =
     \<lparr>models = [''a'' \<mapsto> \<lparr>LLM_CONFIG = ollama_a,
         LLM_INST = Some (Handle LLM_INST_OF (OllamaFactory (PyStr ''llama3'')) 0),
         EMBEDDINGS_INST = Some (Handle EMBEDDINGS_INST_OF (OllamaFactory (PyStr ''llama3'')) 1)\<rparr>],
      constructed = [(''a'', LLM_INST_OF), (''a'', EMBEDDINGS_INST_OF)]\<rparr>"

definition llamacpp_b :: llm_config where
  "llamacpp_b = \<lparr>CONFIG_NAME = Some ''b'', CONFIG_TYPE = Some CONFIG_LLAMACPP,
               CONFIG_MODEL = Some (PyStr ''b.gguf''), CONFIG_LLM_OPENAI_API_KEY = None\<rparr>"

definition nameless :: llm_config where
  "nameless = \<lparr>CONFIG_NAME = None, CONFIG_TYPE = Some CONFIG_OLLAMA,
               CONFIG_MODEL = Some (PyStr ''llama3''), CONFIG_LLM_OPENAI_API_KEY = None\<rparr>"

definition openai_nomodel :: llm_config where
  "openai_nomodel = \<lparr>CONFIG_NAME = Some ''gpt'', CONFIG_TYPE = Some CONFIG_OPENAI,
               CONFIG_MODEL = Some PyNone, CONFIG_LLM_OPENAI_API_KEY = Some (PyStr ''sk-1'')\<rparr>"

definition manager_a_llm :: ModelManager where
  "manager_a_llm =
     \<lparr>models = [''a'' \<mapsto> \<lparr>LLM_CONFIG = ollama_a,
         LLM_INST = Some (Handle LLM_INST_OF (OllamaFactory (PyStr ''llama3'')) 0),
         EMBEDDINGS_INST = None\<rparr>],
      constructed = [(''a'', LLM_INST_OF)]\<rparr>"

definition manager_ab :: ModelManager where
  "manager_ab =
     \<lparr>models = [''a'' \<mapsto> fresh_entry ollama_a, ''b'' \<mapsto> fresh_entry llamacpp_b],
      constructed = []\<rparr>"

definition manager_ab_resolved :: ModelManager where
  "manager_ab_resolved =
     \<lparr>models = [''a'' \<mapsto> \<lparr>LLM_CONFIG = ollama_a,
         LLM_INST = Some (Handle LLM_INST_OF (OllamaFactory (PyStr ''llama3'')) 0),
         EMBEDDINGS_INST = Some (Handle EMBEDDINGS_INST_OF (OllamaFactory (PyStr ''llama3'')) 1)\<rparr>,
        ''b'' \<mapsto> fresh_entry llamacpp_b],
      constructed = [(''a'', LLM_INST_OF), (''a'', EMBEDDINGS_INST_OF)]\<rparr>"

definition request_a_b :: request where
  "request_a_b = \<lparr>CONFIG_LLM = Some ''a'', CONFIG_EMBEDDINGS = Some ''b''\<rparr>"

definition manager_ab_two :: ModelManager where
  "manager_ab_two =
     \<lparr>models = [''a'' \<mapsto> \<lparr>LLM_CONFIG = ollama_a,
                   LLM_INST = Some (Handle LLM_INST_OF (OllamaFactory (PyStr ''llama3'')) 0),
                   EMBEDDINGS_INST = None\<rparr>,
                ''b'' \<mapsto> \<lparr>LLM_CONFIG = llamacpp_b,
                   LLM_INST = None,
                   EMBEDDINGS_INST =
                     Some (Handle EMBEDDINGS_INST_OF (LlamaCppFactory (PyStr ''b.gguf'')) 1)\<rparr>],
      constructed = [(''a'', LLM_INST_OF), (''b'', EMBEDDINGS_INST_OF)]\<rparr>"

definition demo_memory :: Memory where
  "demo_memory =
     \<lparr>db_connection = ''mongodb://db'', self_llm = (\<lambda>conversation. ''X is a letter''),
      session_memories = Map.empty, persisted = Map.empty, prune = (\<lambda>ms summary. summary),
      history_ctor_calls = 0, memory_ctor_calls = 0\<rparr>"

definition memory_s1 :: ConversationSummaryBufferMemory where
  "memory_s1 =
     \<lparr>chat_memory = \<lparr>connection_string = ''mongodb://db'', session_id = ''s1''\<rparr>,
      moving_summary_buffer = [], object_id = 0\<rparr>"

definition demo_memory_s1 :: Memory where
  "demo_memory_s1 =
     demo_memory\<lparr>session_memories := [''s1'' \<mapsto> memory_s1],
                 history_ctor_calls := 1, memory_ctor_calls := 1\<rparr>"

definition demo_memory_turn :: Memory where
  "demo_memory_turn =
     demo_memory_s1\<lparr>persisted :=
       [(''mongodb://db'', ''s1'') \<mapsto> [(Human, ''What is X?''), (AI, ''X is a letter'')]]\<rparr>"

definition old_entry :: "(string, string) CacheEntry" where
  "old_entry = \<lparr>key = ''k'', cached_value = ''old'', created_at = 0, ttl = 10\<rparr>"

section \<open>Registry construction: the loop over the descriptors\<close>

lemma register_error: "register ls ms = Inl e \<Longrightarrow> e = ValueError"
  by (induction ls arbitrary: ms) (auto split: option.splits if_splits)

lemma register_Inr_iff:
  "(\<exists>ms'. register ls ms = Inr ms') \<longleftrightarrow>
   None \<notin> set (map CONFIG_NAME ls) \<and> distinct (map CONFIG_NAME ls) \<and>
   (\<forall>l \<in> set ls. \<forall>n. CONFIG_NAME l = Some n \<longrightarrow> ms n = None)"
proof (induction ls arbitrary: ms)
  case Nil
  show ?case by simp
next
  case (Cons l ls)
  show ?case
  proof (cases "CONFIG_NAME l")
    case None
    then show ?thesis by simp
  next
    case (Some n)
    show ?thesis
    proof (cases "ms n")
      case None
      have "(\<exists>ms'. register (l # ls) ms = Inr ms') \<longleftrightarrow>
            (\<exists>ms'. register ls (ms(n \<mapsto> \<lparr>LLM_CONFIG = l, LLM_INST = None, EMBEDDINGS_INST = None\<rparr>)) = Inr ms')"
        using Some None by simp
      also have "\<dots> \<longleftrightarrow> None \<notin> set (map CONFIG_NAME ls) \<and> distinct (map CONFIG_NAME ls) \<and>
            (\<forall>l' \<in> set ls. \<forall>k. CONFIG_NAME l' = Some k \<longrightarrow> k \<noteq> n \<and> ms k = None)"
        unfolding Cons.IH by (auto split: if_splits)
      also have "\<dots> \<longleftrightarrow> None \<notin> set (map CONFIG_NAME (l # ls)) \<and> distinct (map CONFIG_NAME (l # ls)) \<and>
            (\<forall>l' \<in> set (l # ls). \<forall>k. CONFIG_NAME l' = Some k \<longrightarrow> ms k = None)"
        using Some None by (auto simp: image_iff) (metis+)
      finally show ?thesis .
    next
      case (Some e)
      then show ?thesis using \<open>CONFIG_NAME l = Some n\<close> by auto
    qed
  qed
qed

lemma register_entries:
  "register ls ms = Inr ms' \<Longrightarrow> ms' n = Some e \<Longrightarrow>
   ms n = Some e \<or> (ms n = None \<and> LLM_INST e = None \<and> EMBEDDINGS_INST e = None \<and>
     LLM_CONFIG e \<in> set ls \<and> CONFIG_NAME (LLM_CONFIG e) = Some n)"
proof (induction ls arbitrary: ms)
  case Nil
  then show ?case by simp
next
  case (Cons l ls)
  from Cons.prems(1) obtain k where k: "CONFIG_NAME l = Some k" "ms k = None"
    and r: "register ls (ms(k \<mapsto> \<lparr>LLM_CONFIG = l, LLM_INST = None, EMBEDDINGS_INST = None\<rparr>)) = Inr ms'"
    by (auto split: option.splits if_splits)
  from Cons.IH[OF r Cons.prems(2)] show ?case
    using k by (auto split: if_splits)
qed

lemma register_dom:
  "register ls ms = Inr ms' \<Longrightarrow> dom ms' = dom ms \<union> {n. Some n \<in> set (map CONFIG_NAME ls)}"
proof (induction ls arbitrary: ms)
  case Nil
  then show ?case by simp
next
  case (Cons l ls)
  from Cons.prems(1) obtain k where k: "CONFIG_NAME l = Some k" "ms k = None"
    and r: "register ls (ms(k \<mapsto> \<lparr>LLM_CONFIG = l, LLM_INST = None, EMBEDDINGS_INST = None\<rparr>)) = Inr ms'"
    by (auto split: option.splits if_splits)
  from Cons.IH[OF r] show ?case
    using k by (auto split: if_splits)
qed


lemma ModelManager_new_InrD:
  "ModelManager_new cfg None = (Inr self, inst) \<Longrightarrow>
   \<exists>llms ms. CONFIG_LLMS cfg = Some llms \<and> register llms Map.empty = Inr ms \<and>
     self = \<lparr>models = ms, constructed = []\<rparr> \<and> inst = Some self"
  unfolding ModelManager_new_def
  by (auto simp: Let_def split: option.splits sum.splits)

lemma new_entries_empty:
  assumes "ModelManager_new cfg None = (Inr self, inst)" and "models self n = Some e"
  shows "LLM_INST e = None \<and> EMBEDDINGS_INST e = None"
proof -
  from ModelManager_new_InrD[OF assms(1)] obtain llms ms where
    r: "register llms Map.empty = Inr ms" and s: "self = \<lparr>models = ms, constructed = []\<rparr>"
    by blast
  from assms(2) s have "ms n = Some e" by simp
  from register_entries[OF r this] show ?thesis by simp
qed

lemma cached_once_new:
  assumes "ModelManager_new cfg None = (Inr self, inst)"
  shows "cached_once self"
proof -
  from ModelManager_new_InrD[OF assms] have c: "constructed self = []" by auto
  show ?thesis
    unfolding cached_once_def inst_of_def
    using c new_entries_empty[OF assms]
    by (auto split: option.splits product.splits)
qed

lemma get_llm_inst_cases:
  assumes "get_llm_inst n self = (r, self1)"
  shows "self1 = self \<or>
    (\<exists>e f. models self n = Some e \<and> LLM_INST e = None \<and> get_model (LLM_CONFIG e) = Inr f \<and>
       r = Inr (create_llm f (length (constructed self))) \<and>
       self1 = self\<lparr>models := (models self)(n \<mapsto> e\<lparr>LLM_INST := Some (create_llm f (length (constructed self)))\<rparr>),
                    constructed := constructed self @ [(n, LLM_INST_OF)]\<rparr>)"
  using assms unfolding get_llm_inst_def
  by (auto simp: Let_def split: option.splits sum.splits)

lemma get_embeddings_inst_cases:
  assumes "get_embeddings_inst n self = (r, self1)"
  shows "self1 = self \<or>
    (\<exists>e f. models self n = Some e \<and> EMBEDDINGS_INST e = None \<and> get_model (LLM_CONFIG e) = Inr f \<and>
       r = Inr (create_embeddings f (length (constructed self))) \<and>
       self1 = self\<lparr>models := (models self)(n \<mapsto> e\<lparr>EMBEDDINGS_INST := Some (create_embeddings f (length (constructed self)))\<rparr>),
                    constructed := constructed self @ [(n, EMBEDDINGS_INST_OF)]\<rparr>)"
  using assms unfolding get_embeddings_inst_def
  by (auto simp: Let_def split: option.splits sum.splits)

lemma cached_once_store:
  assumes inv: "cached_once self" and e: "models self n = Some e" and none: "inst_of q e = None"
    and e': "inst_of q e' = Some h" "\<And>p. p \<noteq> q \<Longrightarrow> inst_of p e' = inst_of p e"
  shows "cached_once (self\<lparr>models := (models self)(n \<mapsto> e'), constructed := constructed self @ [(n, q)]\<rparr>)"
  unfolding cached_once_def
proof (intro allI)
  fix k p
  from inv have c: "count_list (constructed self) (k, p) =
        (case models self k of None \<Rightarrow> 0
         | Some e \<Rightarrow> (case inst_of p e of None \<Rightarrow> 0 | Some h \<Rightarrow> 1))"
    unfolding cached_once_def by blast
  show "count_list (constructed (self\<lparr>models := (models self)(n \<mapsto> e'), constructed := constructed self @ [(n, q)]\<rparr>)) (k, p) =
        (case models (self\<lparr>models := (models self)(n \<mapsto> e'), constructed := constructed self @ [(n, q)]\<rparr>) k of None \<Rightarrow> 0
         | Some e \<Rightarrow> (case inst_of p e of None \<Rightarrow> 0 | Some h \<Rightarrow> 1))"
  proof (cases "k = n")
    case False
    then show ?thesis using c by simp
  next
    case True
    show ?thesis
    proof (cases "p = q")
      case True
      with \<open>k = n\<close> c e none e'(1) show ?thesis by simp
    next
      case False
      with \<open>k = n\<close> c e e'(2)[OF False] show ?thesis by simp
    qed
  qed
qed

lemma get_llm_inst_cached_once:
  assumes "cached_once self" and "get_llm_inst n self = (r, self1)"
  shows "cached_once self1"
proof -
  from get_llm_inst_cases[OF assms(2)] show ?thesis
  proof
    assume "self1 = self" with assms(1) show ?thesis by simp
  next
    assume "\<exists>e f. models self n = Some e \<and> LLM_INST e = None \<and> get_model (LLM_CONFIG e) = Inr f \<and>
       r = Inr (create_llm f (length (constructed self))) \<and>
       self1 = self\<lparr>models := (models self)(n \<mapsto> e\<lparr>LLM_INST := Some (create_llm f (length (constructed self)))\<rparr>),
                    constructed := constructed self @ [(n, LLM_INST_OF)]\<rparr>"
    then obtain e f where e: "models self n = Some e" "LLM_INST e = None"
      and s: "self1 = self\<lparr>models := (models self)(n \<mapsto> e\<lparr>LLM_INST := Some (create_llm f (length (constructed self)))\<rparr>),
                    constructed := constructed self @ [(n, LLM_INST_OF)]\<rparr>"
      by blast
    show ?thesis unfolding s
      by (rule cached_once_store[OF assms(1) e(1)])
         (use e(2) in \<open>auto simp: inst_of_def split: product.splits\<close>)
  qed
qed

lemma get_embeddings_inst_cached_once:
  assumes "cached_once self" and "get_embeddings_inst n self = (r, self1)"
  shows "cached_once self1"
proof -
  from get_embeddings_inst_cases[OF assms(2)] show ?thesis
  proof
    assume "self1 = self" with assms(1) show ?thesis by simp
  next
    assume "\<exists>e f. models self n = Some e \<and> EMBEDDINGS_INST e = None \<and> get_model (LLM_CONFIG e) = Inr f \<and>
       r = Inr (create_embeddings f (length (constructed self))) \<and>
       self1 = self\<lparr>models := (models self)(n \<mapsto> e\<lparr>EMBEDDINGS_INST := Some (create_embeddings f (length (constructed self)))\<rparr>),
                    constructed := constructed self @ [(n, EMBEDDINGS_INST_OF)]\<rparr>"
    then obtain e f where e: "models self n = Some e" "EMBEDDINGS_INST e = None"
      and s: "self1 = self\<lparr>models := (models self)(n \<mapsto> e\<lparr>EMBEDDINGS_INST := Some (create_embeddings f (length (constructed self)))\<rparr>),
                    constructed := constructed self @ [(n, EMBEDDINGS_INST_OF)]\<rparr>"
      by blast
    show ?thesis unfolding s
      by (rule cached_once_store[OF assms(1) e(1)])
         (use e(2) in \<open>auto simp: inst_of_def split: product.splits\<close>)
  qed
qed

lemma get_model_cached_once:
  "cached_once self \<Longrightarrow> ModelManager_get_model c self = (r, self1) \<Longrightarrow> cached_once self1"
  unfolding ModelManager_get_model_def
  by (auto split: option.splits sum.splits prod.splits
      dest: get_llm_inst_cached_once get_embeddings_inst_cached_once)

lemma resolve_all_cached_once:
  "cached_once self \<Longrightarrow> resolve_all cs self = (rs, self1) \<Longrightarrow> cached_once self1"
  by (induction cs arbitrary: self rs)
     (auto split: prod.splits dest: get_model_cached_once)

lemma get_llm_inst_hit:
  "models self n = Some e \<Longrightarrow> LLM_INST e = Some h \<Longrightarrow> get_llm_inst n self = (Inr h, self)"
  by (simp add: get_llm_inst_def)

lemma get_embeddings_inst_hit:
  "models self n = Some e \<Longrightarrow> EMBEDDINGS_INST e = Some h \<Longrightarrow>
   get_embeddings_inst n self = (Inr h, self)"
  by (simp add: get_embeddings_inst_def)

lemma get_llm_inst_accepted:
  assumes "models self n = Some e" and "get_model (LLM_CONFIG e) = Inr f"
  shows "\<exists>h self1 e1. get_llm_inst n self = (Inr h, self1) \<and> models self1 n = Some e1 \<and>
           LLM_INST e1 = Some h \<and> LLM_CONFIG e1 = LLM_CONFIG e \<and>
           EMBEDDINGS_INST e1 = EMBEDDINGS_INST e"
  using assms by (cases "LLM_INST e") (auto simp: get_llm_inst_def Let_def)

lemma get_embeddings_inst_accepted:
  assumes "models self n = Some e" and "get_model (LLM_CONFIG e) = Inr f"
  shows "\<exists>h self1 e1. get_embeddings_inst n self = (Inr h, self1) \<and> models self1 n = Some e1 \<and>
           EMBEDDINGS_INST e1 = Some h \<and> LLM_CONFIG e1 = LLM_CONFIG e \<and>
           LLM_INST e1 = LLM_INST e"
  using assms by (cases "EMBEDDINGS_INST e") (auto simp: get_embeddings_inst_def Let_def)

lemma acceptedD:
  "accepted self k \<Longrightarrow> \<exists>e f. models self k = Some e \<and> get_model (LLM_CONFIG e) = Inr f"
  by (auto simp: accepted_def split: option.splits sum.splits)

lemma get_llm_inst_keeps:
  assumes "get_llm_inst j self = (r, self1)" and "models self k = Some e"
  shows "\<exists>e1. models self1 k = Some e1 \<and> LLM_CONFIG e1 = LLM_CONFIG e \<and>
              EMBEDDINGS_INST e1 = EMBEDDINGS_INST e"
  using get_llm_inst_cases[OF assms(1)] assms(2) by (cases "k = j") auto

lemma get_embeddings_inst_keeps:
  assumes "get_embeddings_inst j self = (r, self1)" and "models self k = Some e"
  shows "\<exists>e1. models self1 k = Some e1 \<and> LLM_CONFIG e1 = LLM_CONFIG e \<and>
              LLM_INST e1 = LLM_INST e"
  using get_embeddings_inst_cases[OF assms(1)] assms(2) by (cases "k = j") auto

lemma resolution_settles:
  assumes l: "\<forall>k. CONFIG_LLM c = Some k \<longrightarrow> accepted self k"
    and m: "\<forall>k. CONFIG_EMBEDDINGS c = Some k \<longrightarrow> accepted self k"
  shows "\<exists>b self1. ModelManager_get_model c self = (Inr b, self1) \<and>
           ModelManager_get_model c self1 = (Inr b, self1) \<and>
           (\<forall>k. CONFIG_LLM c = Some k \<longrightarrow>
              llm b \<noteq> None \<and> (\<exists>e1. models self1 k = Some e1 \<and> LLM_INST e1 = llm b)) \<and>
           (\<forall>k. CONFIG_EMBEDDINGS c = Some k \<longrightarrow>
              embeddings b \<noteq> None \<and>
              (\<exists>e1. models self1 k = Some e1 \<and> EMBEDDINGS_INST e1 = embeddings b))"
proof -
  obtain l1 s1 where step1:
    "(case CONFIG_LLM c of None \<Rightarrow> (Inr None, self)
      | Some llm_name \<Rightarrow> (case get_llm_inst llm_name self of
           (Inl err, self1) \<Rightarrow> (Inl err, self1) | (Inr h, self1) \<Rightarrow> (Inr (Some h), self1))) = (Inr l1, s1)"
    and l1: "\<forall>k. CONFIG_LLM c = Some k \<longrightarrow>
               l1 \<noteq> None \<and> (\<exists>e1. models s1 k = Some e1 \<and> LLM_INST e1 = l1)"
      "CONFIG_LLM c = None \<longrightarrow> l1 = None"
    and keep1: "\<forall>k e. models self k = Some e \<longrightarrow>
               (\<exists>e1. models s1 k = Some e1 \<and> LLM_CONFIG e1 = LLM_CONFIG e)"
  proof (cases "CONFIG_LLM c")
    case None
    with that[of None self] show ?thesis by simp
  next
    case (Some k)
    with l have "accepted self k" by simp
    from acceptedD[OF this] obtain e f where e: "models self k = Some e"
      "get_model (LLM_CONFIG e) = Inr f" by blast
    from get_llm_inst_accepted[OF e] obtain h s1 e1 where
      g: "get_llm_inst k self = (Inr h, s1)" and e1: "models s1 k = Some e1" "LLM_INST e1 = Some h"
      by blast
    have "\<forall>j e. models self j = Some e \<longrightarrow>
               (\<exists>e1. models s1 j = Some e1 \<and> LLM_CONFIG e1 = LLM_CONFIG e)"
      using get_llm_inst_keeps[OF g] by blast
    with Some g e1 that[of "Some h" s1] show ?thesis by simp
  qed
  have m1: "\<forall>k. CONFIG_EMBEDDINGS c = Some k \<longrightarrow> accepted s1 k"
  proof (intro allI impI)
    fix k assume "CONFIG_EMBEDDINGS c = Some k"
    with m have "accepted self k" by simp
    from acceptedD[OF this] obtain e f where e: "models self k = Some e"
      "get_model (LLM_CONFIG e) = Inr f" by blast
    with keep1 obtain e1 where "models s1 k = Some e1" "LLM_CONFIG e1 = LLM_CONFIG e" by blast
    with e(2) show "accepted s1 k" by (simp add: accepted_def)
  qed
  obtain b s2 where step2:
    "(case CONFIG_EMBEDDINGS c of None \<Rightarrow> (Inr \<lparr>llm = l1, embeddings = None\<rparr>, s1)
      | Some embeddings_name \<Rightarrow> (case get_embeddings_inst embeddings_name s1 of
           (Inl err, self2) \<Rightarrow> (Inl err, self2)
         | (Inr h, self2) \<Rightarrow> (Inr \<lparr>llm = l1, embeddings = Some h\<rparr>, self2))) = (Inr b, s2)"
    and b: "llm b = l1"
      "\<forall>k. CONFIG_EMBEDDINGS c = Some k \<longrightarrow>
         embeddings b \<noteq> None \<and> (\<exists>e2. models s2 k = Some e2 \<and> EMBEDDINGS_INST e2 = embeddings b)"
      "CONFIG_EMBEDDINGS c = None \<longrightarrow> embeddings b = None"
    and keep2: "\<forall>k e. models s1 k = Some e \<longrightarrow>
               (\<exists>e2. models s2 k = Some e2 \<and> LLM_INST e2 = LLM_INST e)"
  proof (cases "CONFIG_EMBEDDINGS c")
    case None
    with that[of "\<lparr>llm = l1, embeddings = None\<rparr>" s1] show ?thesis by simp
  next
    case (Some k)
    with m1 have "accepted s1 k" by simp
    from acceptedD[OF this] obtain e f where e: "models s1 k = Some e"
      "get_model (LLM_CONFIG e) = Inr f" by blast
    from get_embeddings_inst_accepted[OF e] obtain h s2 e2 where
      g: "get_embeddings_inst k s1 = (Inr h, s2)" and e2: "models s2 k = Some e2"
        "EMBEDDINGS_INST e2 = Some h"
      by blast
    have "\<forall>j e. models s1 j = Some e \<longrightarrow>
               (\<exists>e2. models s2 j = Some e2 \<and> LLM_INST e2 = LLM_INST e)"
      using get_embeddings_inst_keeps[OF g] by blast
    with Some g e2 that[of "\<lparr>llm = l1, embeddings = Some h\<rparr>" s2] show ?thesis by simp
  qed
  have llm2: "\<forall>k. CONFIG_LLM c = Some k \<longrightarrow>
               l1 \<noteq> None \<and> (\<exists>e2. models s2 k = Some e2 \<and> LLM_INST e2 = l1)"
    using l1(1) keep2 by metis
  have first: "ModelManager_get_model c self = (Inr b, s2)"
    unfolding ModelManager_get_model_def step1 using step2 by simp
  have again_llm:
    "(case CONFIG_LLM c of None \<Rightarrow> (Inr None, s2)
      | Some llm_name \<Rightarrow> (case get_llm_inst llm_name s2 of
           (Inl err, self1) \<Rightarrow> (Inl err, self1) | (Inr h, self1) \<Rightarrow> (Inr (Some h), self1))) = (Inr l1, s2)"
  proof (cases "CONFIG_LLM c")
    case None
    with l1(2) show ?thesis by simp
  next
    case (Some k)
    with llm2 obtain h e2 where h: "l1 = Some h" "models s2 k = Some e2" "LLM_INST e2 = Some h"
      by auto
    from get_llm_inst_hit[OF h(2,3)] Some h(1) show ?thesis by simp
  qed
  have again_emb:
    "(case CONFIG_EMBEDDINGS c of None \<Rightarrow> (Inr \<lparr>llm = l1, embeddings = None\<rparr>, s2)
      | Some embeddings_name \<Rightarrow> (case get_embeddings_inst embeddings_name s2 of
           (Inl err, self2) \<Rightarrow> (Inl err, self2)
         | (Inr h, self2) \<Rightarrow> (Inr \<lparr>llm = l1, embeddings = Some h\<rparr>, self2))) = (Inr b, s2)"
  proof (cases "CONFIG_EMBEDDINGS c")
    case None
    with b(1,3) show ?thesis by simp
  next
    case (Some k)
    with b(2) obtain h e2 where h: "embeddings b = Some h" "models s2 k = Some e2"
      "EMBEDDINGS_INST e2 = Some h"
      by auto
    from get_embeddings_inst_hit[OF h(2,3)] Some h(1) b(1) show ?thesis by simp
  qed
  have again: "ModelManager_get_model c s2 = (Inr b, s2)"
    unfolding ModelManager_get_model_def again_llm using again_emb by simp
  from first again llm2 b show ?thesis by auto
qed

lemma resolve_all_replicate_fixed:
  "ModelManager_get_model c self = (r, self) \<Longrightarrow>
   resolve_all (replicate k c) self = (replicate k r, self)"
  by (induction k) auto

lemma new_a: "ModelManager_new \<lparr>CONFIG_LLMS = Some [ollama_a]\<rparr> None = (Inr manager_a, Some manager_a)"
  by (simp add: ModelManager_new_def manager_a_def fresh_entry_def ollama_a_def Let_def)

lemma cached_once_count:
  assumes "cached_once self" and "models self n = Some e" and "inst_of p e \<noteq> None"
  shows "count_list (constructed self) (n, p) = 1"
proof -
  from assms(1) have "count_list (constructed self) (n, p) =
        (case models self n of None \<Rightarrow> 0
         | Some e \<Rightarrow> (case inst_of p e of None \<Rightarrow> 0 | Some h \<Rightarrow> 1))"
    unfolding cached_once_def by blast
  with assms(2,3) show ?thesis by auto
qed

section \<open>Evaluation of the examples\<close>

lemmas registry_eval =
  ModelManager_new_def ModelManager_get_model_def get_llm_inst_def get_embeddings_inst_def
  get_model_def HuggingFaceFactory_init_def LlamaCppFactory_init_def OllamaFactory_init_def
  OpenAIFactory_init_def create_llm_def create_embeddings_def Let_def

lemmas memory_eval =
  Memory_init_def Memory_get_session_memory_def Memory_integrate_def Memory_clear_def
  integrate_prompt_def load_memory_variables_def save_context_def history_clear_def
  ConversationSummaryBufferMemory_init_def
  messages_def history_of_def Let_def

lemma new_ab:
  "ModelManager_new \<lparr>CONFIG_LLMS = Some [ollama_a, llamacpp_b]\<rparr> None =
   (Inr manager_ab, Some manager_ab)"
  by (simp add: registry_eval manager_ab_def fresh_entry_def ollama_a_def llamacpp_b_def)

lemma run_ab:
  "resolve_all [request_a_both] manager_ab =
   ([Inr \<lparr>llm = Some (Handle LLM_INST_OF (OllamaFactory (PyStr ''llama3'')) 0),
           embeddings = Some (Handle EMBEDDINGS_INST_OF (OllamaFactory (PyStr ''llama3'')) 1)\<rparr>],
    manager_ab_resolved)"
  by (simp add: registry_eval manager_ab_def manager_ab_resolved_def request_a_both_def
      fresh_entry_def ollama_a_def llamacpp_b_def fun_upd_twist)

lemma run_a_b:
  "resolve_all (replicate 2 request_a_b) manager_ab =
   (replicate 2 (Inr \<lparr>llm = Some (Handle LLM_INST_OF (OllamaFactory (PyStr ''llama3'')) 0),
                     embeddings = Some (Handle EMBEDDINGS_INST_OF (LlamaCppFactory (PyStr ''b.gguf'')) 1)\<rparr>),
    manager_ab_two)"
  by (simp add: numeral_2_eq_2 registry_eval manager_ab_def manager_ab_two_def request_a_b_def
      fresh_entry_def ollama_a_def llamacpp_b_def fun_upd_twist)

section \<open>C1: a handle is constructed once and then served from the entry\<close>

text \<open>
  Claim C1, as amended. Take a manager as \<open>__new__\<close> built it, after any earlier requests,
  and a request every name of which is registered with a descriptor that \<open>get_model\<close>
  accepts (the type is present and known, and the factory's own checks pass). Resolve the
  request \<open>N \<ge> 2\<close> times in a row. Then every one of the \<open>N\<close> calls returns the same bundle.
  For the name the request gives as its language model, the handle in the bundle is the
  one stored in the entry of that name, and the log of constructor calls holds exactly one
  construction of the language-model handle of that name; and likewise for the name the
  request gives as its embeddings and the embedding handle of that name. The two names may
  be the same or different, and either may be missing.
\<close>

theorem resolve_constructs_once:
  assumes built: "ModelManager_new cfg0 None = (Inr self0, inst)"
    and earlier: "resolve_all earlier self0 = (rs0, self)"
    and l: "\<forall>k. CONFIG_LLM c = Some k \<longrightarrow> accepted self k"
    and m: "\<forall>k. CONFIG_EMBEDDINGS c = Some k \<longrightarrow> accepted self k"
    and N: "2 \<le> N"
    and run: "resolve_all (replicate N c) self = (rs, self')"
  shows "\<exists>b. rs = replicate N (Inr b) \<and>
           (\<forall>k. CONFIG_LLM c = Some k \<longrightarrow>
              llm b \<noteq> None \<and> (\<exists>e'. models self' k = Some e' \<and> LLM_INST e' = llm b) \<and>
              count_list (constructed self') (k, LLM_INST_OF) = 1) \<and>
           (\<forall>k. CONFIG_EMBEDDINGS c = Some k \<longrightarrow>
              embeddings b \<noteq> None \<and>
              (\<exists>e'. models self' k = Some e' \<and> EMBEDDINGS_INST e' = embeddings b) \<and>
              count_list (constructed self') (k, EMBEDDINGS_INST_OF) = 1)"
proof -
  from resolution_settles[OF l m] obtain b self1 where
    first: "ModelManager_get_model c self = (Inr b, self1)"
    and again: "ModelManager_get_model c self1 = (Inr b, self1)"
    and hl: "\<forall>k. CONFIG_LLM c = Some k \<longrightarrow>
              llm b \<noteq> None \<and> (\<exists>e1. models self1 k = Some e1 \<and> LLM_INST e1 = llm b)"
    and he: "\<forall>k. CONFIG_EMBEDDINGS c = Some k \<longrightarrow>
              embeddings b \<noteq> None \<and>
              (\<exists>e1. models self1 k = Some e1 \<and> EMBEDDINGS_INST e1 = embeddings b)"
    by blast
  from N obtain j where j: "N = Suc j" by (cases N) auto
  have "resolve_all (replicate N c) self = (replicate N (Inr b), self1)"
    unfolding j using first resolve_all_replicate_fixed[OF again, of j] by simp
  with run have rs: "rs = replicate N (Inr b)" and s: "self' = self1" by simp_all
  have inv: "cached_once self1"
    using cached_once_new[OF built] earlier first
    by (blast intro: resolve_all_cached_once get_model_cached_once)
  have cl: "count_list (constructed self1) (k, LLM_INST_OF) = 1" if "CONFIG_LLM c = Some k" for k
  proof -
    from hl that obtain e1 where "models self1 k = Some e1" "LLM_INST e1 \<noteq> None" by auto
    then show ?thesis
      using cached_once_count[OF inv, of k e1 LLM_INST_OF] by (simp add: inst_of_def)
  qed
  have ce: "count_list (constructed self1) (k, EMBEDDINGS_INST_OF) = 1"
    if "CONFIG_EMBEDDINGS c = Some k" for k
  proof -
    from he that obtain e1 where "models self1 k = Some e1" "EMBEDDINGS_INST e1 \<noteq> None" by auto
    then show ?thesis
      using cached_once_count[OF inv, of k e1 EMBEDDINGS_INST_OF] by (simp add: inst_of_def)
  qed
  from rs s hl he cl ce show ?thesis by auto
qed

theorem resolve_constructs_once_witness:
  "ModelManager_new \<lparr>CONFIG_LLMS = Some [ollama_a, llamacpp_b]\<rparr> None =
     (Inr manager_ab, Some manager_ab) \<and>
   resolve_all [] manager_ab = ([], manager_ab) \<and>
   CONFIG_LLM request_a_b = Some ''a'' \<and> accepted manager_ab ''a'' \<and>
   CONFIG_EMBEDDINGS request_a_b = Some ''b'' \<and> accepted manager_ab ''b'' \<and>
   (2::nat) \<le> 2 \<and>
   (\<exists>b. fst (resolve_all (replicate 2 request_a_b) manager_ab) = replicate 2 (Inr b) \<and>
      llm b \<noteq> None \<and>
      (\<exists>e'. models manager_ab_two ''a'' = Some e' \<and> LLM_INST e' = llm b) \<and>
      count_list (constructed manager_ab_two) (''a'', LLM_INST_OF) = 1 \<and>
      embeddings b \<noteq> None \<and>
      (\<exists>e'. models manager_ab_two ''b'' = Some e' \<and> EMBEDDINGS_INST e' = embeddings b) \<and>
      count_list (constructed manager_ab_two) (''b'', EMBEDDINGS_INST_OF) = 1)"
proof -
  have h2: "resolve_all [] manager_ab = ([], manager_ab)" by simp
  have ra: "CONFIG_LLM request_a_b = Some ''a''" "CONFIG_EMBEDDINGS request_a_b = Some ''b''"
    by (simp_all add: request_a_b_def)
  have aa: "accepted manager_ab ''a''"
    by (simp add: accepted_def manager_ab_def fresh_entry_def ollama_a_def get_model_def
        OllamaFactory_init_def)
  have ab: "accepted manager_ab ''b''"
    by (simp add: accepted_def manager_ab_def fresh_entry_def llamacpp_b_def get_model_def
        LlamaCppFactory_init_def)
  have h3: "\<forall>k. CONFIG_LLM request_a_b = Some k \<longrightarrow> accepted manager_ab k"
    using aa by (simp add: request_a_b_def)
  have h4: "\<forall>k. CONFIG_EMBEDDINGS request_a_b = Some k \<longrightarrow> accepted manager_ab k"
    using ab by (simp add: request_a_b_def)
  have h5: "(2::nat) \<le> 2" by simp
  from resolve_constructs_once[OF new_ab h2 h3 h4 h5 run_a_b] ra
  have "\<exists>b. fst (resolve_all (replicate 2 request_a_b) manager_ab) = replicate 2 (Inr b) \<and>
      llm b \<noteq> None \<and>
      (\<exists>e'. models manager_ab_two ''a'' = Some e' \<and> LLM_INST e' = llm b) \<and>
      count_list (constructed manager_ab_two) (''a'', LLM_INST_OF) = 1 \<and>
      embeddings b \<noteq> None \<and>
      (\<exists>e'. models manager_ab_two ''b'' = Some e' \<and> EMBEDDINGS_INST e' = embeddings b) \<and>
      count_list (constructed manager_ab_two) (''b'', EMBEDDINGS_INST_OF) = 1"
    unfolding run_a_b by simp
  with new_ab h2 ra aa ab h5 show ?thesis by blast
qed

text \<open>
  The claim as stated, for every registered name, fails for a name whose descriptor the
  factory rejects. The descriptor \<open>openai_nokey\<close> has a name, so \<open>__new__\<close> registers it; its
  API key is the empty string, so \<open>OpenAIFactory.__init__\<close> raises. Two resolutions of the
  name both raise \<open>ValueError\<close>, return no handle, and construct nothing.
\<close>

theorem resolve_constructs_once_counterexample:
  "ModelManager_new \<lparr>CONFIG_LLMS = Some [openai_nokey]\<rparr> None = (Inr manager_gpt, Some manager_gpt) \<and>
   models manager_gpt ''gpt'' = Some (fresh_entry openai_nokey) \<and>
   resolve_all (replicate 2 \<lparr>CONFIG_LLM = Some ''gpt'', CONFIG_EMBEDDINGS = None\<rparr>) manager_gpt =
     ([Inl ValueError, Inl ValueError], manager_gpt) \<and>
   count_list (constructed manager_gpt) (''gpt'', LLM_INST_OF) = 0"
  by (simp add: numeral_2_eq_2 ModelManager_new_def ModelManager_get_model_def get_llm_inst_def
      get_model_def OpenAIFactory_init_def manager_gpt_def fresh_entry_def openai_nokey_def Let_def)

section \<open>C2: a request that names an unregistered backend\<close>

text \<open>
  Claim C2, as amended. A request that names an unregistered backend fails. When the
  unregistered name is the language-model name, or is the embeddings name of a request
  with no language-model name, the call raises \<open>ValueError\<close> and leaves the manager as it
  was: nothing is constructed or cached. When the language-model name is registered and the
  embeddings name is not, the language-model block runs to its end first. If the
  language-model handle of the registered name is cached already, the call raises
  \<open>ValueError\<close> and leaves the manager as it was. If it is not cached and \<open>get_model\<close> rejects
  the descriptor, the call raises the factory's error and leaves the manager as it was. If
  it is not cached and \<open>get_model\<close> accepts the descriptor, the call raises \<open>ValueError\<close> and the
  manager has changed in exactly this: the language-model handle of the registered name has
  been constructed (one more call in the log) and stored in its entry. In no case is an
  embedding handle constructed or cached.
\<close>

theorem unregistered_name_fails:
  "(CONFIG_LLM c = Some n \<and> models self n = None \<longrightarrow>
      ModelManager_get_model c self = (Inl ValueError, self)) \<and>
   (CONFIG_LLM c = None \<and> CONFIG_EMBEDDINGS c = Some k \<and> models self k = None \<longrightarrow>
      ModelManager_get_model c self = (Inl ValueError, self)) \<and>
   (CONFIG_LLM c = Some n \<and> models self n = Some e \<and>
    CONFIG_EMBEDDINGS c = Some k \<and> models self k = None \<longrightarrow>
      ModelManager_get_model c self =
        (case LLM_INST e of
           Some h \<Rightarrow> (Inl ValueError, self)
         | None \<Rightarrow>
             (case get_model (LLM_CONFIG e) of
                Inl err \<Rightarrow> (Inl err, self)
              | Inr f \<Rightarrow>
                  (Inl ValueError,
                   self\<lparr>models := (models self)
                           (n \<mapsto> e\<lparr>LLM_INST := Some (create_llm f (length (constructed self)))\<rparr>),
                        constructed := constructed self @ [(n, LLM_INST_OF)]\<rparr>))))"
  by (auto simp: ModelManager_get_model_def get_llm_inst_def get_embeddings_inst_def Let_def
      split: option.splits sum.splits)

theorem unregistered_name_fails_witness:
  "models manager_a ''zz'' = None \<and>
   ModelManager_get_model \<lparr>CONFIG_LLM = Some ''zz'', CONFIG_EMBEDDINGS = Some ''a''\<rparr> manager_a =
     (Inl ValueError, manager_a) \<and>
   ModelManager_get_model \<lparr>CONFIG_LLM = None, CONFIG_EMBEDDINGS = Some ''zz''\<rparr> manager_a =
     (Inl ValueError, manager_a) \<and>
   models manager_a ''a'' = Some (fresh_entry ollama_a) \<and>
   LLM_INST (fresh_entry ollama_a) = None \<and>
   get_model (LLM_CONFIG (fresh_entry ollama_a)) = Inr (OllamaFactory (PyStr ''llama3'')) \<and>
   ModelManager_get_model \<lparr>CONFIG_LLM = Some ''a'', CONFIG_EMBEDDINGS = Some ''zz''\<rparr> manager_a =
     (Inl ValueError,
      manager_a\<lparr>models := (models manager_a)
          (''a'' \<mapsto> (fresh_entry ollama_a)
             \<lparr>LLM_INST := Some (create_llm (OllamaFactory (PyStr ''llama3''))
                                   (length (constructed manager_a)))\<rparr>),
        constructed := constructed manager_a @ [(''a'', LLM_INST_OF)]\<rparr>) \<and>
   models manager_a_llm ''zz'' = None \<and>
   ModelManager_get_model \<lparr>CONFIG_LLM = Some ''a'', CONFIG_EMBEDDINGS = Some ''zz''\<rparr> manager_a_llm =
     (Inl ValueError, manager_a_llm)"
proof -
  have z: "models manager_a ''zz'' = None" by (simp add: manager_a_def)
  have a: "models manager_a ''a'' = Some (fresh_entry ollama_a)" by (simp add: manager_a_def)
  have u: "LLM_INST (fresh_entry ollama_a) = None" by (simp add: fresh_entry_def)
  have g: "get_model (LLM_CONFIG (fresh_entry ollama_a)) = Inr (OllamaFactory (PyStr ''llama3''))"
    by (simp add: fresh_entry_def ollama_a_def get_model_def OllamaFactory_init_def)
  have z': "models manager_a_llm ''zz'' = None" by (simp add: manager_a_llm_def)
  have a': "models manager_a_llm ''a'' =
      Some \<lparr>LLM_CONFIG = ollama_a,
            LLM_INST = Some (Handle LLM_INST_OF (OllamaFactory (PyStr ''llama3'')) 0),
            EMBEDDINGS_INST = None\<rparr>"
    by (simp add: manager_a_llm_def)
  from z unregistered_name_fails
    [where c = "\<lparr>CONFIG_LLM = Some ''zz'', CONFIG_EMBEDDINGS = Some ''a''\<rparr>"
       and n = "''zz''" and self = manager_a]
  have 1: "ModelManager_get_model \<lparr>CONFIG_LLM = Some ''zz'', CONFIG_EMBEDDINGS = Some ''a''\<rparr> manager_a =
     (Inl ValueError, manager_a)"
    by simp
  from z unregistered_name_fails
    [where c = "\<lparr>CONFIG_LLM = None, CONFIG_EMBEDDINGS = Some ''zz''\<rparr>"
       and k = "''zz''" and self = manager_a]
  have 2: "ModelManager_get_model \<lparr>CONFIG_LLM = None, CONFIG_EMBEDDINGS = Some ''zz''\<rparr> manager_a =
     (Inl ValueError, manager_a)"
    by simp
  from z a u g unregistered_name_fails
    [where c = "\<lparr>CONFIG_LLM = Some ''a'', CONFIG_EMBEDDINGS = Some ''zz''\<rparr>"
       and n = "''a''" and k = "''zz''" and self = manager_a and e = "fresh_entry ollama_a"]
  have 3: "ModelManager_get_model \<lparr>CONFIG_LLM = Some ''a'', CONFIG_EMBEDDINGS = Some ''zz''\<rparr> manager_a =
     (Inl ValueError,
      manager_a\<lparr>models := (models manager_a)
          (''a'' \<mapsto> (fresh_entry ollama_a)
             \<lparr>LLM_INST := Some (create_llm (OllamaFactory (PyStr ''llama3''))
                                   (length (constructed manager_a)))\<rparr>),
        constructed := constructed manager_a @ [(''a'', LLM_INST_OF)]\<rparr>)"
    by simp
  from z' a' unregistered_name_fails
    [where c = "\<lparr>CONFIG_LLM = Some ''a'', CONFIG_EMBEDDINGS = Some ''zz''\<rparr>"
       and n = "''a''" and k = "''zz''" and self = manager_a_llm
       and e = "\<lparr>LLM_CONFIG = ollama_a,
            LLM_INST = Some (Handle LLM_INST_OF (OllamaFactory (PyStr ''llama3'')) 0),
            EMBEDDINGS_INST = None\<rparr>"]
  have 4: "ModelManager_get_model \<lparr>CONFIG_LLM = Some ''a'', CONFIG_EMBEDDINGS = Some ''zz''\<rparr> manager_a_llm =
     (Inl ValueError, manager_a_llm)"
    by simp
  from z a u g 1 2 3 z' 4 show ?thesis by blast
qed

text \<open>
  The claim as stated fails when the request also names a registered backend as its
  language model. On the manager built from the one descriptor \<open>ollama_a\<close>, the request for
  the language model \<open>a\<close> and the embeddings \<open>zz\<close> raises \<open>ValueError\<close> for \<open>zz\<close>, and yet the
  language-model handle of \<open>a\<close> has been constructed (the log holds the call) and is cached
  in the entry: the manager after the failing call is \<open>manager_a_llm\<close>, not \<open>manager_a\<close>.
\<close>

theorem unregistered_name_fails_counterexample:
  "models manager_a ''zz'' = None \<and> models manager_a ''a'' = Some (fresh_entry ollama_a) \<and>
   ModelManager_get_model \<lparr>CONFIG_LLM = Some ''a'', CONFIG_EMBEDDINGS = Some ''zz''\<rparr> manager_a =
     (Inl ValueError, manager_a_llm) \<and>
   constructed manager_a = [] \<and> constructed manager_a_llm = [(''a'', LLM_INST_OF)] \<and>
   manager_a_llm \<noteq> manager_a"
  by (simp add: ModelManager_get_model_def get_llm_inst_def get_embeddings_inst_def
      get_model_def OllamaFactory_init_def create_llm_def
      manager_a_def manager_a_llm_def fresh_entry_def ollama_a_def Let_def)

section \<open>C3: what the first construction validates\<close>

text \<open>
  Claim C3. On a class that holds no instance yet (the attribute \<open>__instance\<close> is \<open>None\<close>, its
  value in the class body; calls made once an instance exists are the subject of C10),
  building the registry raises \<open>ValueError\<close>, and stores no instance, if the descriptor list
  is absent, if some descriptor has no name, or if two descriptors share a name; and it
  returns a manager, stored as the instance, whose registered names are exactly the names
  of the list, when the list is present and its names are all present and pairwise
  distinct.
\<close>

theorem ModelManager_new_validation:
  "(CONFIG_LLMS cfg = None \<longrightarrow> ModelManager_new cfg None = (Inl ValueError, None)) \<and>
   (CONFIG_LLMS cfg = Some llms \<and> (\<exists>l\<in>set llms. CONFIG_NAME l = None) \<longrightarrow>
      ModelManager_new cfg None = (Inl ValueError, None)) \<and>
   (CONFIG_LLMS cfg = Some llms \<and> \<not> distinct (map CONFIG_NAME llms) \<longrightarrow>
      ModelManager_new cfg None = (Inl ValueError, None)) \<and>
   (CONFIG_LLMS cfg = Some llms \<and> (\<forall>l\<in>set llms. CONFIG_NAME l \<noteq> None) \<and>
    distinct (map CONFIG_NAME llms) \<longrightarrow>
      (\<exists>self. ModelManager_new cfg None = (Inr self, Some self) \<and>
         dom (models self) = {n. Some n \<in> set (map CONFIG_NAME llms)}))"
proof -
  have fails: "ModelManager_new cfg None = (Inl ValueError, None)"
    if "CONFIG_LLMS cfg = Some llms" and "\<not> (\<exists>ms. register llms Map.empty = Inr ms)" for llms
  proof -
    from that(2) obtain e where "register llms Map.empty = Inl e"
      by (cases "register llms Map.empty") auto
    with register_error[OF this] that(1) show ?thesis
      by (simp add: ModelManager_new_def)
  qed
  have ok: "\<exists>self. ModelManager_new cfg None = (Inr self, Some self) \<and>
         dom (models self) = {n. Some n \<in> set (map CONFIG_NAME llms)}"
    if "CONFIG_LLMS cfg = Some llms" and "\<exists>ms. register llms Map.empty = Inr ms" for llms
  proof -
    from that(2) obtain ms where ms: "register llms Map.empty = Inr ms" by blast
    from register_dom[OF ms] ms that(1) show ?thesis
      by (simp add: ModelManager_new_def Let_def)
  qed
  have iff: "(\<exists>ms. register llms Map.empty = Inr ms) \<longleftrightarrow>
      None \<notin> set (map CONFIG_NAME llms) \<and> distinct (map CONFIG_NAME llms)" for llms
    unfolding register_Inr_iff by simp
  show ?thesis
  proof (intro conjI impI)
    assume "CONFIG_LLMS cfg = None"
    then show "ModelManager_new cfg None = (Inl ValueError, None)"
      by (simp add: ModelManager_new_def)
  next
    assume a: "CONFIG_LLMS cfg = Some llms \<and> (\<exists>l\<in>set llms. CONFIG_NAME l = None)"
    then have "None \<in> set (map CONFIG_NAME llms)" by (auto simp: image_iff) metis
    with a iff[of llms] fails[of llms] show "ModelManager_new cfg None = (Inl ValueError, None)"
      by blast
  next
    assume a: "CONFIG_LLMS cfg = Some llms \<and> \<not> distinct (map CONFIG_NAME llms)"
    with iff[of llms] fails[of llms] show "ModelManager_new cfg None = (Inl ValueError, None)"
      by blast
  next
    assume a: "CONFIG_LLMS cfg = Some llms \<and> (\<forall>l\<in>set llms. CONFIG_NAME l \<noteq> None) \<and>
      distinct (map CONFIG_NAME llms)"
    then have "None \<notin> set (map CONFIG_NAME llms)" by auto
    with a iff[of llms] ok[of llms]
    show "\<exists>self. ModelManager_new cfg None = (Inr self, Some self) \<and>
         dom (models self) = {n. Some n \<in> set (map CONFIG_NAME llms)}"
      by blast
  qed
qed

theorem ModelManager_new_validation_witness:
  "ModelManager_new \<lparr>CONFIG_LLMS = None\<rparr> None = (Inl ValueError, None) \<and>
   ModelManager_new \<lparr>CONFIG_LLMS = Some [ollama_a, nameless]\<rparr> None = (Inl ValueError, None) \<and>
   ModelManager_new \<lparr>CONFIG_LLMS = Some [ollama_a, llamacpp_b, ollama_a]\<rparr> None =
     (Inl ValueError, None) \<and>
   (\<exists>self. ModelManager_new \<lparr>CONFIG_LLMS = Some [ollama_a, llamacpp_b]\<rparr> None =
             (Inr self, Some self) \<and>
           dom (models self) = {''a'', ''b''})"
proof -
  from ModelManager_new_validation[where cfg = "\<lparr>CONFIG_LLMS = None\<rparr>"]
  have 1: "ModelManager_new \<lparr>CONFIG_LLMS = None\<rparr> None = (Inl ValueError, None)"
    by simp
  from ModelManager_new_validation
    [where cfg = "\<lparr>CONFIG_LLMS = Some [ollama_a, nameless]\<rparr>" and llms = "[ollama_a, nameless]"]
  have 2: "ModelManager_new \<lparr>CONFIG_LLMS = Some [ollama_a, nameless]\<rparr> None = (Inl ValueError, None)"
    by (simp add: nameless_def)
  from ModelManager_new_validation
    [where cfg = "\<lparr>CONFIG_LLMS = Some [ollama_a, llamacpp_b, ollama_a]\<rparr>"
       and llms = "[ollama_a, llamacpp_b, ollama_a]"]
  have 3: "ModelManager_new \<lparr>CONFIG_LLMS = Some [ollama_a, llamacpp_b, ollama_a]\<rparr> None =
     (Inl ValueError, None)"
    by simp
  have names: "{n. Some n \<in> set (map CONFIG_NAME [ollama_a, llamacpp_b])} = {''a'', ''b''}"
    by (auto simp: ollama_a_def llamacpp_b_def)
  from ModelManager_new_validation
    [where cfg = "\<lparr>CONFIG_LLMS = Some [ollama_a, llamacpp_b]\<rparr>" and llms = "[ollama_a, llamacpp_b]"]
  have 4: "\<exists>self. ModelManager_new \<lparr>CONFIG_LLMS = Some [ollama_a, llamacpp_b]\<rparr> None =
             (Inr self, Some self) \<and>
           dom (models self) = {''a'', ''b''}"
    unfolding names by (simp add: ollama_a_def llamacpp_b_def)
  from 1 2 3 4 show ?thesis by blast
qed

section \<open>C4: what the factories validate\<close>

text \<open>
  Three of the four factories of lib/model\_manager.py, and both factories of the package
  layout, raise when the model is missing: \<open>KeyError\<close> when the key is absent, \<open>ValueError\<close>
  when its value is \<open>None\<close> or empty.
\<close>

lemma factories_reject_missing_model:
  assumes "CONFIG_MODEL cfg = None \<or> (\<exists>m. CONFIG_MODEL cfg = Some m \<and> \<not> truthy m)"
  shows "isl (HuggingFaceFactory_init cfg) \<and> isl (LlamaCppFactory_init cfg) \<and>
         isl (OllamaFactory_init cfg) \<and> isl (support_ai_LlamaCppFactory_init cfg) \<and>
         isl (support_ai_OpenAIFactory_init cfg)"
  using assms
  by (auto simp: HuggingFaceFactory_init_def LlamaCppFactory_init_def OllamaFactory_init_def
      support_ai_LlamaCppFactory_init_def support_ai_OpenAIFactory_init_def)

lemma OpenAIFactory_rejects_missing_key:
  assumes "CONFIG_LLM_OPENAI_API_KEY cfg = None \<or>
           (\<exists>k. CONFIG_LLM_OPENAI_API_KEY cfg = Some k \<and> \<not> truthy k)"
  shows "isl (OpenAIFactory_init cfg) \<and> isl (support_ai_OpenAIFactory_init cfg)"
  using assms
  by (auto simp: OpenAIFactory_init_def support_ai_OpenAIFactory_init_def split: option.splits)

text \<open>
  Claim C4 does not hold of \<open>OpenAIFactory.__init__\<close> in lib/model\_manager.py, which stores
  the model without testing it. On the descriptor \<open>openai_nomodel\<close>, whose model is \<open>None\<close> and
  whose API key is given, the constructor returns a factory, and so does \<open>get_model\<close>; the
  \<open>OpenAIFactory\<close> of the package layout raises \<open>ValueError\<close> on the same descriptor.
\<close>

theorem OpenAIFactory_init_unchecked_model:
  "CONFIG_MODEL openai_nomodel = Some PyNone \<and> \<not> truthy PyNone \<and>
   OpenAIFactory_init openai_nomodel = Inr (OpenAIFactory PyNone (PyStr ''sk-1'')) \<and>
   get_model openai_nomodel = Inr (OpenAIFactory PyNone (PyStr ''sk-1'')) \<and>
   support_ai_OpenAIFactory_init openai_nomodel = Inl ValueError"
  by (simp add: openai_nomodel_def OpenAIFactory_init_def get_model_def
      support_ai_OpenAIFactory_init_def)

section \<open>C8: construction builds no handle\<close>

lemma get_llm_inst_frame:
  assumes "get_llm_inst k self = (r, self1)" and "models self1 n = Some e1"
  shows "\<exists>e. models self n = Some e \<and> EMBEDDINGS_INST e = EMBEDDINGS_INST e1 \<and>
              (k \<noteq> n \<longrightarrow> LLM_INST e = LLM_INST e1)"
  using get_llm_inst_cases[OF assms(1)] assms(2)
  by (auto split: if_splits)

lemma get_embeddings_inst_frame:
  assumes "get_embeddings_inst k self = (r, self1)" and "models self1 n = Some e1"
  shows "\<exists>e. models self n = Some e \<and> LLM_INST e = LLM_INST e1 \<and>
              (k \<noteq> n \<longrightarrow> EMBEDDINGS_INST e = EMBEDDINGS_INST e1)"
  using get_embeddings_inst_cases[OF assms(1)] assms(2)
  by (auto split: if_splits)

lemma get_model_frame:
  assumes run: "ModelManager_get_model c self = (r, self1)" and e1: "models self1 n = Some e1"
  shows "\<exists>e. models self n = Some e \<and>
           (CONFIG_LLM c \<noteq> Some n \<longrightarrow> LLM_INST e = LLM_INST e1) \<and>
           (CONFIG_EMBEDDINGS c \<noteq> Some n \<longrightarrow> EMBEDDINGS_INST e = EMBEDDINGS_INST e1)"
proof -
  obtain r1 s1 where step1:
    "(case CONFIG_LLM c of None \<Rightarrow> (Inr None, self)
      | Some llm_name \<Rightarrow> (case get_llm_inst llm_name self of
           (Inl err, self1) \<Rightarrow> (Inl err, self1) | (Inr h, self1) \<Rightarrow> (Inr (Some h), self1))) = (r1, s1)"
    by (cases "(case CONFIG_LLM c of None \<Rightarrow> (Inr None, self)
      | Some llm_name \<Rightarrow> (case get_llm_inst llm_name self of
           (Inl err, self1) \<Rightarrow> (Inl err, self1) | (Inr h, self1) \<Rightarrow> (Inr (Some h), self1)))")
  have f1: "\<exists>e. models self n = Some e \<and> EMBEDDINGS_INST e = EMBEDDINGS_INST e' \<and>
              (CONFIG_LLM c \<noteq> Some n \<longrightarrow> LLM_INST e = LLM_INST e')"
    if "models s1 n = Some e'" for e'
  proof (cases "CONFIG_LLM c")
    case None
    with step1 that show ?thesis by simp
  next
    case (Some k)
    obtain r0 s0 where g: "get_llm_inst k self = (r0, s0)" by (cases "get_llm_inst k self")
    with step1 Some have "s0 = s1" by (cases r0) auto
    with get_llm_inst_frame[OF g, of n e'] that Some show ?thesis by auto
  qed
  have f2: "\<exists>e'. models s1 n = Some e' \<and> LLM_INST e' = LLM_INST e1 \<and>
              (CONFIG_EMBEDDINGS c \<noteq> Some n \<longrightarrow> EMBEDDINGS_INST e' = EMBEDDINGS_INST e1)"
  proof (cases r1)
    case (Inl err)
    with run step1 have "self1 = s1" by (simp add: ModelManager_get_model_def)
    with e1 show ?thesis by simp
  next
    case (Inr l)
    show ?thesis
    proof (cases "CONFIG_EMBEDDINGS c")
      case None
      with run step1 Inr have "self1 = s1" by (simp add: ModelManager_get_model_def)
      with e1 show ?thesis by simp
    next
      case (Some k)
      obtain r0 s0 where g: "get_embeddings_inst k s1 = (r0, s0)"
        by (cases "get_embeddings_inst k s1")
      with run step1 Inr Some have "s0 = self1"
        by (cases r0) (auto simp: ModelManager_get_model_def)
      with get_embeddings_inst_frame[OF g, of n e1] e1 Some show ?thesis by auto
    qed
  qed
  from f2 obtain e' where e': "models s1 n = Some e'" "LLM_INST e' = LLM_INST e1"
    "CONFIG_EMBEDDINGS c \<noteq> Some n \<longrightarrow> EMBEDDINGS_INST e' = EMBEDDINGS_INST e1" by blast
  from f1[OF e'(1)] e'(2,3) show ?thesis by auto
qed

lemma resolve_all_frame:
  assumes "resolve_all cs self = (rs, self')" and "models self' n = Some e'"
  shows "\<exists>e. models self n = Some e \<and>
           ((\<forall>c\<in>set cs. CONFIG_LLM c \<noteq> Some n) \<longrightarrow> LLM_INST e = LLM_INST e') \<and>
           ((\<forall>c\<in>set cs. CONFIG_EMBEDDINGS c \<noteq> Some n) \<longrightarrow> EMBEDDINGS_INST e = EMBEDDINGS_INST e')"
  using assms
proof (induction cs arbitrary: self rs)
  case Nil
  then show ?case by simp
next
  case (Cons c cs)
  obtain r self1 where step: "ModelManager_get_model c self = (r, self1)"
    by (cases "ModelManager_get_model c self")
  obtain rs1 self2 where rest: "resolve_all cs self1 = (rs1, self2)"
    by (cases "resolve_all cs self1")
  with Cons.prems(1) step have "self2 = self'" by simp
  with Cons.IH[OF rest[unfolded this]] Cons.prems(2) rest obtain e1 where
    e1: "models self1 n = Some e1"
      "(\<forall>c\<in>set cs. CONFIG_LLM c \<noteq> Some n) \<longrightarrow> LLM_INST e1 = LLM_INST e'"
      "(\<forall>c\<in>set cs. CONFIG_EMBEDDINGS c \<noteq> Some n) \<longrightarrow> EMBEDDINGS_INST e1 = EMBEDDINGS_INST e'"
    by blast
  from get_model_frame[OF step e1(1)] e1(2,3) show ?case by auto
qed

text \<open>
  Claim C8. A manager built by \<open>__new__\<close> on a class that holds no instance yet has an empty
  log of constructor calls and every entry's two handle fields empty. After any sequence of
  requests, the language-model field of an entry is still empty if no request of the
  sequence named the entry as its language model, and its embeddings field is still empty
  if no request named it as its embeddings.
\<close>

theorem construction_builds_no_handle:
  assumes built: "ModelManager_new cfg None = (Inr self, inst)"
    and later: "resolve_all cs self = (rs, self')"
    and entry: "models self' n = Some e'"
  shows "constructed self = [] \<and>
         (\<forall>k e. models self k = Some e \<longrightarrow> LLM_INST e = None \<and> EMBEDDINGS_INST e = None) \<and>
         ((\<forall>c\<in>set cs. CONFIG_LLM c \<noteq> Some n) \<longrightarrow> LLM_INST e' = None) \<and>
         ((\<forall>c\<in>set cs. CONFIG_EMBEDDINGS c \<noteq> Some n) \<longrightarrow> EMBEDDINGS_INST e' = None)"
proof -
  from ModelManager_new_InrD[OF built] have c: "constructed self = []" by auto
  from resolve_all_frame[OF later entry] obtain e where e: "models self n = Some e"
    "(\<forall>c\<in>set cs. CONFIG_LLM c \<noteq> Some n) \<longrightarrow> LLM_INST e = LLM_INST e'"
    "(\<forall>c\<in>set cs. CONFIG_EMBEDDINGS c \<noteq> Some n) \<longrightarrow> EMBEDDINGS_INST e = EMBEDDINGS_INST e'"
    by blast
  from new_entries_empty[OF built e(1)] e(2,3) c new_entries_empty[OF built]
  show ?thesis by auto
qed

theorem construction_builds_no_handle_witness:
  "ModelManager_new \<lparr>CONFIG_LLMS = Some [ollama_a, llamacpp_b]\<rparr> None =
     (Inr manager_ab, Some manager_ab) \<and>
   snd (resolve_all [request_a_both] manager_ab) = manager_ab_resolved \<and>
   models manager_ab_resolved ''b'' = Some (fresh_entry llamacpp_b) \<and>
   CONFIG_LLM request_a_both \<noteq> Some ''b'' \<and> CONFIG_EMBEDDINGS request_a_both \<noteq> Some ''b'' \<and>
   constructed manager_ab = [] \<and>
   models manager_ab ''a'' = Some (fresh_entry ollama_a) \<and>
   LLM_INST (fresh_entry ollama_a) = None \<and> EMBEDDINGS_INST (fresh_entry ollama_a) = None \<and>
   LLM_INST (fresh_entry llamacpp_b) = None \<and> EMBEDDINGS_INST (fresh_entry llamacpp_b) = None"
proof -
  have b: "models manager_ab_resolved ''b'' = Some (fresh_entry llamacpp_b)"
    by (simp add: manager_ab_resolved_def)
  have a: "models manager_ab ''a'' = Some (fresh_entry ollama_a)"
    by (simp add: manager_ab_def)
  have r: "CONFIG_LLM request_a_both \<noteq> Some ''b''" "CONFIG_EMBEDDINGS request_a_both \<noteq> Some ''b''"
    by (simp_all add: request_a_both_def)
  from construction_builds_no_handle[OF new_ab run_ab b] a r
  have "constructed manager_ab = [] \<and>
   LLM_INST (fresh_entry ollama_a) = None \<and> EMBEDDINGS_INST (fresh_entry ollama_a) = None \<and>
   LLM_INST (fresh_entry llamacpp_b) = None \<and> EMBEDDINGS_INST (fresh_entry llamacpp_b) = None"
    by simp
  with new_ab run_ab a b r show ?thesis by simp
qed

section \<open>C10: the class keeps one instance\<close>

text \<open>
  Claim C10. A first construction that succeeds stores the manager it returns as the
  instance of the class. Once the class holds an instance, a construction call with any
  configuration at all (a descriptor list that is absent, that has a descriptor with no
  name, or that has a name twice) returns that instance as it is, raises nothing, and
  leaves the instance, its registered entries included, unchanged.
\<close>

theorem singleton_instance:
  "(ModelManager_new cfg0 None = (Inr self0, inst) \<longrightarrow> inst = Some self0) \<and>
   ModelManager_new cfg (Some self) = (Inr self, Some self)"
  by (auto simp: ModelManager_new_def Let_def split: option.splits sum.splits)

theorem singleton_instance_witness:
  "ModelManager_new \<lparr>CONFIG_LLMS = Some [ollama_a]\<rparr> None =
     (Inr manager_a, snd (ModelManager_new \<lparr>CONFIG_LLMS = Some [ollama_a]\<rparr> None)) \<and>
   snd (ModelManager_new \<lparr>CONFIG_LLMS = Some [ollama_a]\<rparr> None) = Some manager_a \<and>
   ModelManager_new \<lparr>CONFIG_LLMS = None\<rparr> (Some manager_a_resolved) =
     (Inr manager_a_resolved, Some manager_a_resolved) \<and>
   ModelManager_new \<lparr>CONFIG_LLMS = Some [ollama_a, nameless, ollama_a]\<rparr> (Some manager_a_resolved) =
     (Inr manager_a_resolved, Some manager_a_resolved)"
proof -
  have first: "ModelManager_new \<lparr>CONFIG_LLMS = Some [ollama_a]\<rparr> None =
     (Inr manager_a, snd (ModelManager_new \<lparr>CONFIG_LLMS = Some [ollama_a]\<rparr> None))"
    by (simp add: new_a)
  from first singleton_instance
    [where ?cfg0.0 = "\<lparr>CONFIG_LLMS = Some [ollama_a]\<rparr>" and ?self0.0 = manager_a
       and inst = "snd (ModelManager_new \<lparr>CONFIG_LLMS = Some [ollama_a]\<rparr> None)"]
  have stored: "snd (ModelManager_new \<lparr>CONFIG_LLMS = Some [ollama_a]\<rparr> None) = Some manager_a"
    by blast
  from singleton_instance[where cfg = "\<lparr>CONFIG_LLMS = None\<rparr>" and self = manager_a_resolved]
  have absent: "ModelManager_new \<lparr>CONFIG_LLMS = None\<rparr> (Some manager_a_resolved) =
     (Inr manager_a_resolved, Some manager_a_resolved)"
    by blast
  from singleton_instance
    [where cfg = "\<lparr>CONFIG_LLMS = Some [ollama_a, nameless, ollama_a]\<rparr>" and self = manager_a_resolved]
  have bad: "ModelManager_new \<lparr>CONFIG_LLMS = Some [ollama_a, nameless, ollama_a]\<rparr>
       (Some manager_a_resolved) = (Inr manager_a_resolved, Some manager_a_resolved)"
    by blast
  from first stored absent bad show ?thesis by blast
qed

section \<open>The session memories\<close>

lemma Memory_init_demo:
  "Memory_init \<lparr>CONFIG_DB_CONNECTION = Some ''mongodb://db''\<rparr> (\<lambda>conversation. ''X is a letter'')
     Map.empty (\<lambda>ms summary. summary) = Inr demo_memory"
  by (simp add: Memory_init_def demo_memory_def)

lemma sessions_bound_init:
  "Memory_init cfg model_llm database policy = Inr self \<Longrightarrow> sessions_bound self"
  by (auto simp: Memory_init_def sessions_bound_def split: option.splits)

lemma get_session_memory_bound:
  assumes "sessions_bound self" and "Memory_get_session_memory session self = (m, self1)"
  shows "sessions_bound self1 \<and> session_memories self1 session = Some m \<and>
         chat_memory m = \<lparr>connection_string = db_connection self, session_id = session\<rparr> \<and>
         db_connection self1 = db_connection self \<and> persisted self1 = persisted self \<and>
         self_llm self1 = self_llm self"
  using assms unfolding Memory_get_session_memory_def sessions_bound_def
  by (auto simp: Let_def split: option.splits if_splits)

lemma get_session_memory_hit:
  "session_memories self session = Some m \<Longrightarrow> Memory_get_session_memory session self = (m, self)"
  by (simp add: Memory_get_session_memory_def)

lemma get_session_memory_stores:
  "Memory_get_session_memory session self = (m, self1) \<Longrightarrow> session_memories self1 session = Some m"
  by (auto simp: Memory_get_session_memory_def Let_def split: option.splits)

section \<open>C5: one memory object for a session\<close>

text \<open>
  Claim C5. Two calls of \<open>__get_session_memory\<close> for the same session, one after the other,
  return the same memory object (the same identity, bound to the same history), and the
  second call changes nothing. When the manager holds no memory for the session before the
  first call, the constructor of the persisted history has been invoked exactly once
  across both calls. (\<open>clear\<close> invokes that constructor too, hence no call of it in between.)
\<close>

theorem get_session_memory_twice:
  assumes "Memory_get_session_memory session self = (m1, self1)"
    and "Memory_get_session_memory session self1 = (m2, self2)"
  shows "m2 = m1 \<and> self2 = self1 \<and>
         (session_memories self session = None \<longrightarrow>
            history_ctor_calls self2 = Suc (history_ctor_calls self))"
proof -
  from get_session_memory_stores[OF assms(1)] have "session_memories self1 session = Some m1" .
  from get_session_memory_hit[OF this] assms(2) have same: "m2 = m1" "self2 = self1" by simp_all
  have "history_ctor_calls self1 = Suc (history_ctor_calls self)"
    if "session_memories self session = None"
    using assms(1) that by (auto simp: Memory_get_session_memory_def Let_def)
  with same show ?thesis by simp
qed

theorem get_session_memory_twice_witness:
  "session_memories demo_memory ''s1'' = None \<and>
   Memory_get_session_memory ''s1'' demo_memory = (memory_s1, demo_memory_s1) \<and>
   Memory_get_session_memory ''s1'' demo_memory_s1 = (memory_s1, demo_memory_s1) \<and>
   history_ctor_calls demo_memory = 0 \<and> history_ctor_calls demo_memory_s1 = 1"
proof -
  have none: "session_memories demo_memory ''s1'' = None"
    by (simp add: demo_memory_def)
  have g1: "Memory_get_session_memory ''s1'' demo_memory = (memory_s1, demo_memory_s1)"
    by (simp add: memory_eval demo_memory_def memory_s1_def demo_memory_s1_def)
  have g2: "Memory_get_session_memory ''s1'' demo_memory_s1 =
      (fst (Memory_get_session_memory ''s1'' demo_memory_s1),
       snd (Memory_get_session_memory ''s1'' demo_memory_s1))"
    by simp
  from get_session_memory_twice[OF g1 g2]
  have same: "fst (Memory_get_session_memory ''s1'' demo_memory_s1) = memory_s1"
    and unchanged: "snd (Memory_get_session_memory ''s1'' demo_memory_s1) = demo_memory_s1"
    and calls: "session_memories demo_memory ''s1'' = None \<longrightarrow>
       history_ctor_calls (snd (Memory_get_session_memory ''s1'' demo_memory_s1)) =
       Suc (history_ctor_calls demo_memory)"
    by blast+
  from calls none have "history_ctor_calls demo_memory_s1 = Suc (history_ctor_calls demo_memory)"
    unfolding unchanged by blast
  moreover have "history_ctor_calls demo_memory = 0" by (simp add: demo_memory_def)
  ultimately show ?thesis using none g1 same unchanged by (simp add: prod_eq_iff)
qed

section \<open>C6: integrate\<close>

lemma save_context_bound:
  assumes "sessions_bound self"
  shows "sessions_bound (save_context m input output self)"
  using assms unfolding sessions_bound_def save_context_def
  by (auto simp: Let_def split: if_splits)

lemma integrate_bound:
  assumes "sessions_bound self" and "Memory_integrate session query context self = (out, self')"
  shows "sessions_bound self'"
proof -
  obtain m self1 where g: "Memory_get_session_memory session self = (m, self1)"
    by (cases "Memory_get_session_memory session self")
  from get_session_memory_bound[OF assms(1) g] have "sessions_bound self1" by simp
  from save_context_bound[OF this] assms(2) g show ?thesis
    by (auto simp: Memory_integrate_def Let_def)
qed

text \<open>
  Claim C6. On a manager whose stored memories are bound to their sessions (the invariant
  that \<open>__init__\<close> establishes and every method keeps), \<open>integrate\<close> returns the string the
  language model answers to the conversation made of the system message
  \<open>You are a helpful chatbot\<close>, the history loaded from the session's memory, and a human
  message that embeds the context and the query; and the persisted history of the session
  afterwards is the one before with exactly one turn appended, the query as the human
  message and the returned string as the answer. The histories of the other sessions are
  untouched.
\<close>

theorem integrate_appends_turn:
  assumes bound: "sessions_bound self"
    and run: "Memory_integrate session query context self = (out, self')"
  shows "\<exists>memory self1.
           Memory_get_session_memory session self = (memory, self1) \<and>
           out = self_llm self
                   ([(System, ''You are a helpful chatbot'')] @ load_memory_variables memory self1 @
                    [(Human, ''Based on the context: '' @ context @ '', '' @ query)]) \<and>
           history_of self' session = history_of self session @ [(Human, query), (AI, out)] \<and>
           (\<forall>k. k \<noteq> (db_connection self, session) \<longrightarrow> persisted self' k = persisted self k)"
proof -
  obtain m self1 where g: "Memory_get_session_memory session self = (m, self1)"
    by (cases "Memory_get_session_memory session self")
  from get_session_memory_bound[OF bound g] have
    b: "chat_memory m = \<lparr>connection_string = db_connection self, session_id = session\<rparr>"
    and d: "db_connection self1 = db_connection self" and p: "persisted self1 = persisted self"
    and l: "self_llm self1 = self_llm self"
    by simp_all
  from run g have out: "out = self_llm self1 (integrate_prompt (load_memory_variables m self1) context query)"
    and s': "self' = save_context m query out self1"
    by (auto simp: Memory_integrate_def Let_def)
  have h: "history_of self' session = history_of self session @ [(Human, query), (AI, out)]"
    unfolding s' by (simp add: history_of_def save_context_def messages_def Let_def b d p)
  have o: "\<forall>k. k \<noteq> (db_connection self, session) \<longrightarrow> persisted self' k = persisted self k"
    unfolding s' by (simp add: save_context_def Let_def b p)
  from g out h o l show ?thesis by (simp add: integrate_prompt_def)
qed

theorem integrate_appends_turn_witness:
  "sessions_bound demo_memory \<and> history_of demo_memory ''s1'' = [] \<and>
   fst (Memory_integrate ''s1'' ''What is X?'' ''X is defined as ...'' demo_memory) = ''X is a letter'' \<and>
   history_of (snd (Memory_integrate ''s1'' ''What is X?'' ''X is defined as ...'' demo_memory)) ''s1'' =
     [(Human, ''What is X?''), (AI, ''X is a letter'')]"
proof -
  have b: "sessions_bound demo_memory"
    by (rule sessions_bound_init[OF Memory_init_demo])
  have h: "history_of demo_memory ''s1'' = []"
    by (simp add: history_of_def messages_def demo_memory_def)
  have out: "fst (Memory_integrate ''s1'' ''What is X?'' ''X is defined as ...'' demo_memory) =
      ''X is a letter''"
    by (simp add: memory_eval demo_memory_def)
  have run: "Memory_integrate ''s1'' ''What is X?'' ''X is defined as ...'' demo_memory =
      (''X is a letter'',
       snd (Memory_integrate ''s1'' ''What is X?'' ''X is defined as ...'' demo_memory))"
    using out by (simp add: prod_eq_iff)
  from integrate_appends_turn[OF b run] h
  have "history_of (snd (Memory_integrate ''s1'' ''What is X?'' ''X is defined as ...'' demo_memory))
          ''s1'' = [(Human, ''What is X?''), (AI, ''X is a letter'')]"
    by auto
  with b h out show ?thesis by simp
qed

section \<open>C7: clear\<close>

lemma Memory_clear_raises:
  "Memory_clear session self =
     (Inl ValidationError,
      self\<lparr>history_ctor_calls := Suc (history_ctor_calls self),
           memory_ctor_calls := Suc (memory_ctor_calls self)\<rparr>)"
  by (simp add: Memory_clear_def ConversationSummaryBufferMemory_init_def)

lemma clear_bound:
  "sessions_bound self \<Longrightarrow> sessions_bound (snd (Memory_clear session self))"
  by (simp add: Memory_clear_raises sessions_bound_def)

text \<open>
  Claim C7 does not hold of \<open>Memory.clear\<close>. The method builds the session memory by
  \<open>ConversationSummaryBufferMemory(chat_memory=memory)\<close>, without the \<open>llm\<close> that the class
  requires and that the same constructor call in \<open>__get_session_memory\<close> passes. The
  constructor raises, so the call ends before \<open>clear()\<close> and before the deletion from the
  dictionary. On a manager that holds one turn of session \<open>s1\<close> and its memory, \<open>clear\<close> of
  \<open>s1\<close> raises \<open>ValidationError\<close>; afterwards the persisted history of \<open>s1\<close> still holds the
  turn and the dictionary still holds the memory.
\<close>

theorem clear_raises_before_deleting:
  "history_of demo_memory_turn ''s1'' = [(Human, ''What is X?''), (AI, ''X is a letter'')] \<and>
   session_memories demo_memory_turn ''s1'' = Some memory_s1 \<and>
   fst (Memory_clear ''s1'' demo_memory_turn) = Inl ValidationError \<and>
   history_of (snd (Memory_clear ''s1'' demo_memory_turn)) ''s1'' =
     [(Human, ''What is X?''), (AI, ''X is a letter'')] \<and>
   session_memories (snd (Memory_clear ''s1'' demo_memory_turn)) ''s1'' = Some memory_s1"
  by (simp add: Memory_clear_def ConversationSummaryBufferMemory_init_def history_of_def
      messages_def demo_memory_def demo_memory_s1_def demo_memory_turn_def)

section \<open>C9: the cache returns live entries only\<close>

lemma find_live_Some:
  "find (\<lambda>e. key e = k \<and> live now e) cache = Some e \<Longrightarrow> e \<in> set cache \<and> key e = k \<and> live now e"
  by (auto simp: find_Some_iff)

lemma find_live_None:
  "find (\<lambda>e. key e = k \<and> live now e) cache = None \<longleftrightarrow> \<not> (\<exists>e\<in>set cache. key e = k \<and> live now e)"
  by (auto simp: find_None_iff)

text \<open>
  Claim C9, on the cache as the spec describes it. Whenever the cache holds a live entry
  for the key (\<open>now - created_at < ttl\<close>), \<open>get_or_compute\<close> does not invoke \<open>compute\<close> and
  returns the value of a live entry of that key. Whenever it holds none, in particular
  when the entry of the key has expired, \<open>compute\<close> is invoked once and its result is
  returned; afterwards the cache holds no entry of the key other than the fresh one, which
  is stored as the most recently used entry whenever the size bound admits an entry at
  all. So a value returned is that of a live entry or a fresh result, never that of an
  expired entry.
\<close>

theorem get_or_compute_ttl:
  "(case get_or_compute k compute time_to_live max_entries now cache of
      (v, calls, cache') \<Rightarrow>
        ((\<exists>e\<in>set cache. key e = k \<and> live now e) \<longrightarrow>
           calls = 0 \<and> (\<exists>e\<in>set cache. key e = k \<and> live now e \<and> v = cached_value e)) \<and>
        (\<not> (\<exists>e\<in>set cache. key e = k \<and> live now e) \<longrightarrow>
           calls = 1 \<and> v = compute () \<and>
           (\<forall>e\<in>set cache'. key e = k \<longrightarrow>
              e = \<lparr>key = k, cached_value = compute (), created_at = now, ttl = time_to_live\<rparr>) \<and>
           (0 < max_entries \<longrightarrow>
              cache' \<noteq> [] \<and>
              hd cache' = \<lparr>key = k, cached_value = compute (), created_at = now, ttl = time_to_live\<rparr>)))"
proof (cases "find (\<lambda>e. key e = k \<and> live now e) cache")
  case None
  then have no: "\<not> (\<exists>e\<in>set cache. key e = k \<and> live now e)"
    by (simp add: find_live_None)
  let ?fresh = "\<lparr>key = k, cached_value = compute (), created_at = now, ttl = time_to_live\<rparr>"
  let ?stored = "?fresh # filter (\<lambda>e. key e \<noteq> k) cache"
  have keys: "\<forall>e\<in>set ?stored. key e = k \<longrightarrow> e = ?fresh" by auto
  have sub: "set (butlast ?stored) \<subseteq> set ?stored"
    by (meson in_set_butlastD subsetI)
  have hd_b: "0 < max_entries \<Longrightarrow> max_entries < length ?stored \<Longrightarrow>
      butlast ?stored \<noteq> [] \<and> hd (butlast ?stored) = ?fresh"
    by (cases "filter (\<lambda>e. key e \<noteq> k) cache") auto
  show ?thesis
    using None no keys sub hd_b
    by (auto simp: get_or_compute_def Let_def simp del: butlast.simps)
next
  case (Some e)
  from find_live_Some[OF Some] show ?thesis
    using Some by (auto simp: get_or_compute_def)
qed

theorem get_or_compute_ttl_witness:
  "(\<exists>e\<in>set [old_entry]. key e = ''k'' \<and> live 5 e) \<and>
   get_or_compute ''k'' (\<lambda>_. ''new'') 10 4 5 [old_entry] = (''old'', 0, [old_entry]) \<and>
   \<not> (\<exists>e\<in>set [old_entry]. key e = ''k'' \<and> live 15 e) \<and> (0::nat) < 4 \<and>
   get_or_compute ''k'' (\<lambda>_. ''new'') 10 4 15 [old_entry] =
     (''new'', 1, [\<lparr>key = ''k'', cached_value = ''new'', created_at = 15, ttl = 10\<rparr>])"
proof -
  have l5: "\<exists>e\<in>set [old_entry]. key e = ''k'' \<and> live 5 e"
    by (simp add: old_entry_def live_def)
  have l15: "\<not> (\<exists>e\<in>set [old_entry]. key e = ''k'' \<and> live 15 e)"
    by (simp add: old_entry_def live_def)
  have c5: "snd (snd (get_or_compute ''k'' (\<lambda>_. ''new'') 10 4 5 [old_entry])) = [old_entry]"
    by (simp add: get_or_compute_def old_entry_def live_def Let_def)
  have c15: "length (snd (snd (get_or_compute ''k'' (\<lambda>_. ''new'') 10 4 15 [old_entry]))) = 1"
    by (simp add: get_or_compute_def old_entry_def live_def Let_def)
  from get_or_compute_ttl
    [where k = "''k''" and now = 5 and cache = "[old_entry]" and compute = "\<lambda>_. ''new''"
       and time_to_live = 10 and max_entries = 4] l5
  have hit: "fst (get_or_compute ''k'' (\<lambda>_. ''new'') 10 4 5 [old_entry]) = ''old''"
    "fst (snd (get_or_compute ''k'' (\<lambda>_. ''new'') 10 4 5 [old_entry])) = 0"
    by (auto simp: old_entry_def split: prod.splits)
  from get_or_compute_ttl
    [where k = "''k''" and now = 15 and cache = "[old_entry]" and compute = "\<lambda>_. ''new''"
       and time_to_live = 10 and max_entries = 4] l15
  have miss: "fst (get_or_compute ''k'' (\<lambda>_. ''new'') 10 4 15 [old_entry]) = ''new''"
    "fst (snd (get_or_compute ''k'' (\<lambda>_. ''new'') 10 4 15 [old_entry])) = 1"
    "hd (snd (snd (get_or_compute ''k'' (\<lambda>_. ''new'') 10 4 15 [old_entry]))) =
       \<lparr>key = ''k'', cached_value = ''new'', created_at = 15, ttl = 10\<rparr>"
    by (auto split: prod.splits)
  from miss(3) c15
  have "snd (snd (get_or_compute ''k'' (\<lambda>_. ''new'') 10 4 15 [old_entry])) =
      [\<lparr>key = ''k'', cached_value = ''new'', created_at = 15, ttl = 10\<rparr>]"
    by (cases "snd (snd (get_or_compute ''k'' (\<lambda>_. ''new'') 10 4 15 [old_entry]))") auto
  with l5 l15 c5 hit miss show ?thesis by (simp add: prod_eq_iff)
qed

end
